theory Spec2Isabelle
  imports Main
begin

section \<open>Python values\<close>

text \<open>
  A Python \<open>str\<close> is a sequence of Unicode code points, so a string is a list of
  code points (\<open>nat\<close>); \<open>ustr\<close> turns an ASCII literal into such a list.
\<close>

type_synonym ustring = "nat list"

definition ustr :: "string \<Rightarrow> ustring" where
  "ustr s = map of_char s"

abbreviation (input) ch :: "char \<Rightarrow> nat" where
  "ch c \<equiv> of_char c"

abbreviation (input) DQUOTE :: nat where
  "DQUOTE \<equiv> 0x22"

abbreviation (input) BACKSLASH :: nat where
  "BACKSLASH \<equiv> 0x5C"

text \<open>
  A \<open>float\<close> is kept as the decimal literal it was read from: sign, the digits of the
  mantissa as a number, and the decimal exponent (\<open>Finite neg m e\<close> is the binary64
  value nearest to \<open>\<plusminus> m * 10 ^ e\<close>), or one of the constants \<open>Infinity\<close>,
  \<open>-Infinity\<close>, \<open>NaN\<close>.
\<close>

datatype pyfloat = Finite bool nat int | Infinite bool | NaN

text \<open>
  The values the program handles: what \<open>json.loads\<close> returns and what the request
  body, the model's reply and the metadata provider's payload are made of. A \<open>dict\<close>
  is an association list in insertion order, its keys strings.
\<close>

datatype pyval =
    PNone
  | PBool bool
  | PInt int
  | PFloat pyfloat
  | PStr ustring
  | PList "pyval list"
  | PDict "(ustring \<times> pyval) list"

type_synonym pydict = "(ustring \<times> pyval) list"

text \<open>
  Exceptions are values: the class and the message (\<open>str(e)\<close>). Every class here
  derives from \<open>Exception\<close>, so \<open>except Exception\<close> catches each of them.
  \<open>ExternalError\<close> stands for whatever an HTTP client or SDK raises.
\<close>

datatype exn_class = JSONDecodeError | TypeError | AttributeError | KeyError | ExternalError

datatype py_exn = Raised exn_class ustring

fun exn_str :: "py_exn \<Rightarrow> ustring" where
  "exn_str (Raised c msg) = msg"

subsection \<open>Truth value testing\<close>

text \<open>
  A float literal denotes zero when its mantissa is zero or when its magnitude is at
  most \<open>2 ^ -1075\<close>, half the least subnormal, which rounds to zero.
\<close>

fun float_truthy :: "pyfloat \<Rightarrow> bool" where
  "float_truthy (Finite neg m e) =
     (\<not> (m = 0 \<or> (e < 0 \<and> m * 2 ^ 1075 \<le> 10 ^ nat (- e))))"
| "float_truthy (Infinite neg) = True"
| "float_truthy NaN = True"

fun truthy :: "pyval \<Rightarrow> bool" where
  "truthy PNone = False"
| "truthy (PBool b) = b"
| "truthy (PInt n) = (n \<noteq> 0)"
| "truthy (PFloat f) = float_truthy f"
| "truthy (PStr s) = (s \<noteq> [])"
| "truthy (PList xs) = (xs \<noteq> [])"
| "truthy (PDict d) = (d \<noteq> [])"

text \<open>\<open>x or y\<close>\<close>

definition py_or :: "pyval \<Rightarrow> pyval \<Rightarrow> pyval" where
  "py_or x y = (if truthy x then x else y)"

subsection \<open>Dictionaries\<close>

text \<open>\<open>d.get(k, default)\<close>; \<open>d.get(k)\<close> has the default \<open>None\<close>.\<close>

definition dict_get :: "pydict \<Rightarrow> ustring \<Rightarrow> pyval \<Rightarrow> pyval" where
  "dict_get d k dflt = (case map_of d k of None \<Rightarrow> dflt | Some v \<Rightarrow> v)"

text \<open>\<open>d[k] = v\<close>: an existing key keeps its place, a new key goes last.\<close>

fun dict_set :: "ustring \<Rightarrow> pyval \<Rightarrow> pydict \<Rightarrow> pydict" where
  "dict_set k v [] = [(k, v)]"
| "dict_set k v ((k', v') # d) =
     (if k' = k then (k, v) # d else (k', v') # dict_set k v d)"

text \<open>\<open>dict(pairs)\<close>: of two entries with one key the later value wins.\<close>

definition dict_of_pairs :: "(ustring \<times> pyval) list \<Rightarrow> pydict" where
  "dict_of_pairs ps = foldl (\<lambda>d (k, v). dict_set k v d) [] ps"

section \<open>The strict JSON decoder: \<open>json.loads\<close>\<close>

text \<open>
  \<open>json.loads\<close> of the standard library, as \<open>json/decoder.py\<close> and
  \<open>json/scanner.py\<close> define it with the default hooks: a recursive descent over the
  text. Each function takes the text from the current index on and returns the value
  with the text that follows it, or the \<open>JSONDecodeError\<close> raised. The interpreter's
  resource limits (recursion depth, the digit limit of \<open>int\<close>) are not part of
  the model; the message of a \<open>JSONDecodeError\<close> is its \<open>msg\<close>, without the position.
  Where the C accelerator that CPython runs by default is stricter than the Python source
  (the digits of a number, the hexadecimal digits of an escape), the model follows the
  accelerator.
\<close>

definition decode_error :: "string \<Rightarrow> py_exn" where
  "decode_error msg = Raised JSONDecodeError (ustr msg)"

definition invalid_escape :: py_exn where
  "invalid_escape = Raised JSONDecodeError (ustr ''Invalid '' @ [BACKSLASH] @ ustr ''escape'')"

definition invalid_uXXXX :: py_exn where
  "invalid_uXXXX = Raised JSONDecodeError (ustr ''Invalid '' @ [BACKSLASH] @ ustr ''uXXXX escape'')"

text \<open>\<open>WHITESPACE\<close>: blank, tab, line feed, carriage return.\<close>

definition is_json_ws :: "nat \<Rightarrow> bool" where
  "is_json_ws c = (c = 0x20 \<or> c = 0x09 \<or> c = 0x0A \<or> c = 0x0D)"

definition skip_ws :: "ustring \<Rightarrow> ustring" where
  "skip_ws s = dropWhile is_json_ws s"

definition is_digit :: "nat \<Rightarrow> bool" where
  "is_digit c = (ch CHR ''0'' \<le> c \<and> c \<le> ch CHR ''9'')"

definition digits_val :: "ustring \<Rightarrow> nat" where
  "digits_val ds = foldl (\<lambda>n d. 10 * n + (d - ch CHR ''0'')) 0 ds"

definition hexval :: "nat \<Rightarrow> nat option" where
  "hexval c =
     (if ch CHR ''0'' \<le> c \<and> c \<le> ch CHR ''9'' then Some (c - ch CHR ''0'')
      else if ch CHR ''a'' \<le> c \<and> c \<le> ch CHR ''f'' then Some (c - ch CHR ''a'' + 10)
      else if ch CHR ''A'' \<le> c \<and> c \<le> ch CHR ''F'' then Some (c - ch CHR ''A'' + 10)
      else None)"

text \<open>The four hexadecimal digits of a \<open>\uXXXX\<close> escape.\<close>

fun decode_uXXXX :: "ustring \<Rightarrow> (nat \<times> ustring) option" where
  "decode_uXXXX (a # b # c # d # r) =
     (case (hexval a, hexval b, hexval c, hexval d) of
        (Some x, Some y, Some z, Some w) \<Rightarrow> Some (((x * 16 + y) * 16 + z) * 16 + w, r)
      | _ \<Rightarrow> None)"
| "decode_uXXXX _ = None"

text \<open>The table \<open>BACKSLASH\<close> of the one-letter escapes.\<close>

definition backslash_table :: "nat \<Rightarrow> nat option" where
  "backslash_table esc =
     (if esc = DQUOTE then Some DQUOTE
      else if esc = BACKSLASH then Some BACKSLASH
      else if esc = ch CHR ''/'' then Some (ch CHR ''/'')
      else if esc = ch CHR ''b'' then Some 0x08
      else if esc = ch CHR ''f'' then Some 0x0C
      else if esc = ch CHR ''n'' then Some 0x0A
      else if esc = ch CHR ''r'' then Some 0x0D
      else if esc = ch CHR ''t'' then Some 0x09
      else None)"

text \<open>
  \<open>scanstring\<close> in strict mode, from the character after the opening quote: the
  decoded string and the text after the closing quote. \<open>acc\<close> is \<open>chunks\<close>.
  The accelerator wants a character after the four digits of a \<open>\uXXXX\<close> escape
  (\<open>end >= len\<close> is its invalid escape), and reads the second escape of a surrogate
  pair only when a character follows it (\<open>end + 6 < len\<close>).
\<close>

function scanstring :: "ustring \<Rightarrow> ustring \<Rightarrow> py_exn + (ustring \<times> ustring)" where
  "scanstring acc [] = Inl (decode_error ''Unterminated string starting at'')"
| "scanstring acc (c # cs) =
     (if c = DQUOTE then Inr (acc, cs)
      else if c = BACKSLASH then
        (case cs of
           [] \<Rightarrow> Inl (decode_error ''Unterminated string starting at'')
         | esc # cs' \<Rightarrow>
             if esc \<noteq> ch CHR ''u'' then
               (case backslash_table esc of
                  None \<Rightarrow> Inl invalid_escape
                | Some d \<Rightarrow> scanstring (acc @ [d]) cs')
             else
               (case decode_uXXXX cs' of
                  None \<Rightarrow> Inl invalid_uXXXX
                | Some (uni, r) \<Rightarrow>
                    if r = [] then Inl invalid_uXXXX
                    else if 0xD800 \<le> uni \<and> uni \<le> 0xDBFF \<and> 6 < length r
                        \<and> take 2 r = [BACKSLASH, ch CHR ''u''] then
                      (case decode_uXXXX (drop 2 r) of
                         None \<Rightarrow> Inl invalid_uXXXX
                       | Some (uni2, r2) \<Rightarrow>
                           if 0xDC00 \<le> uni2 \<and> uni2 \<le> 0xDFFF then
                             scanstring
                               (acc @ [0x10000 + ((uni - 0xD800) * 1024 + (uni2 - 0xDC00))]) r2
                           else scanstring (acc @ [uni]) r)
                    else scanstring (acc @ [uni]) r))
      else if c \<le> 0x1F then Inl (decode_error ''Invalid control character at'')
      else scanstring (acc @ [c]) cs)"
  by pat_completeness auto
termination
proof -
  have shorter: "length r < length s" if "decode_uXXXX s = Some (u, r)" for s u r
    using that by (induction s rule: decode_uXXXX.induct) (auto split: option.splits)
  show ?thesis
    by (relation "measure (\<lambda>(acc, s). length s)") (auto dest!: shorter)
qed

text \<open>
  The number pattern \<open>(-?(?:0|[1-9][0-9]*))(\.[0-9]+)?([eE][-+]?[0-9]+)?\<close>, matched at
  the start of the text (the digits are the ASCII ones, as in the C scanner). An
  exponent: \<open>[eE][-+]?[0-9]+\<close>.
\<close>

definition match_exponent :: "ustring \<Rightarrow> (int \<times> ustring) option" where
  "match_exponent s =
     (case s of
        [] \<Rightarrow> None
      | e # t \<Rightarrow>
          if e = ch CHR ''e'' \<or> e = ch CHR ''E'' then
            (let (sgn, t') =
                   (case t of
                      [] \<Rightarrow> (1, t)
                    | g # u \<Rightarrow>
                        if g = ch CHR ''-'' then (- 1, u)
                        else if g = ch CHR ''+'' then (1, u)
                        else (1, t))
             in if takeWhile is_digit t' = [] then None
                else Some (sgn * int (digits_val (takeWhile is_digit t')),
                           dropWhile is_digit t'))
          else None)"

definition match_number :: "ustring \<Rightarrow> (pyval \<times> ustring) option" where
  "match_number s =
     (let (neg, s1) =
            (case s of
               [] \<Rightarrow> (False, s)
             | c # r \<Rightarrow> if c = ch CHR ''-'' then (True, r) else (False, s))
      in case s1 of
           [] \<Rightarrow> None
         | d # r \<Rightarrow>
             if \<not> is_digit d then None
             else
               (let (ip, r1) =
                      (if d = ch CHR ''0'' then ([d], r)
                       else (d # takeWhile is_digit r, dropWhile is_digit r));
                    (frac, r2) =
                      (case r1 of
                         [] \<Rightarrow> ([], r1)
                       | p # t \<Rightarrow>
                           if p = ch CHR ''.'' \<and> takeWhile is_digit t \<noteq> []
                           then (takeWhile is_digit t, dropWhile is_digit t)
                           else ([], r1))
                in case match_exponent r2 of
                     None \<Rightarrow>
                       if frac = [] then
                         Some (PInt (if neg then - int (digits_val ip) else int (digits_val ip)), r2)
                       else
                         Some (PFloat (Finite neg (digits_val (ip @ frac)) (- int (length frac))), r2)
                   | Some (ex, r3) \<Rightarrow>
                       Some (PFloat (Finite neg (digits_val (ip @ frac)) (ex - int (length frac))),
                             r3)))"

definition expecting_value :: py_exn where
  "expecting_value = decode_error ''Expecting value''"

definition expecting_name :: py_exn where
  "expecting_name = decode_error ''Expecting property name enclosed in double quotes''"

definition expecting_comma :: py_exn where
  "expecting_comma =
     Raised JSONDecodeError (ustr ''Expecting '' @ [0x27, 0x2C, 0x27] @ ustr '' delimiter'')"

definition expecting_colon :: py_exn where
  "expecting_colon =
     Raised JSONDecodeError (ustr ''Expecting '' @ [0x27, 0x3A, 0x27] @ ustr '' delimiter'')"

text \<open>
  \<open>scan_once\<close> with the loops of \<open>JSONArray\<close> and \<open>JSONObject\<close>.
  \<open>JSONArray_loop values s\<close> is the array loop with \<open>s\<close> at the next value;
  \<open>JSONObject_loop pairs s\<close> is the object loop with \<open>s\<close> just after the opening
  quote of the next key. The tests \<open>length r < length s\<close> on what \<open>scan_once\<close>
  leaves say that the scan moved forward; they are there for the termination proof,
  and \<open>scan_once_advances\<close> below shows that they always hold
  (\<open>JSONArray_loop_unguarded\<close>, \<open>JSONObject_loop_unguarded\<close>).
\<close>

function scan_once :: "ustring \<Rightarrow> py_exn + (pyval \<times> ustring)"
  and JSONArray_loop :: "pyval list \<Rightarrow> ustring \<Rightarrow> py_exn + (pyval \<times> ustring)"
  and JSONObject_loop :: "(ustring \<times> pyval) list \<Rightarrow> ustring \<Rightarrow> py_exn + (pyval \<times> ustring)"
where
  "scan_once s =
     (case s of
        [] \<Rightarrow> Inl expecting_value
      | c # cs \<Rightarrow>
          if c = DQUOTE then
            (case scanstring [] cs of
               Inl e \<Rightarrow> Inl e
             | Inr (str, r) \<Rightarrow> Inr (PStr str, r))
          else if c = ch CHR ''{'' then
            (case skip_ws cs of
               [] \<Rightarrow> Inl expecting_name
             | d # r \<Rightarrow>
                 if d = ch CHR ''}'' then Inr (PDict [], r)
                 else if d = DQUOTE then JSONObject_loop [] r
                 else Inl expecting_name)
          else if c = ch CHR ''['' then
            (case skip_ws cs of
               [] \<Rightarrow> JSONArray_loop [] []
             | d # r \<Rightarrow>
                 if d = ch CHR '']'' then Inr (PList [], r)
                 else JSONArray_loop [] (d # r))
          else if take 4 s = ustr ''null'' then Inr (PNone, drop 4 s)
          else if take 4 s = ustr ''true'' then Inr (PBool True, drop 4 s)
          else if take 5 s = ustr ''false'' then Inr (PBool False, drop 5 s)
          else
            (case match_number s of
               Some (v, r) \<Rightarrow> Inr (v, r)
             | None \<Rightarrow>
                 if take 3 s = ustr ''NaN'' then Inr (PFloat NaN, drop 3 s)
                 else if take 8 s = ustr ''Infinity'' then Inr (PFloat (Infinite False), drop 8 s)
                 else if take 9 s = ustr ''-Infinity'' then Inr (PFloat (Infinite True), drop 9 s)
                 else Inl expecting_value))"
| "JSONArray_loop values s =
     (case scan_once s of
        Inl e \<Rightarrow> Inl e
      | Inr (v, r) \<Rightarrow>
          if length r < length s then
            (case skip_ws r of
               [] \<Rightarrow> Inl expecting_comma
             | d # r' \<Rightarrow>
                 if d = ch CHR '']'' then Inr (PList (values @ [v]), r')
                 else if d = ch CHR '','' then JSONArray_loop (values @ [v]) (skip_ws r')
                 else Inl expecting_comma)
          else Inl expecting_value)"
| "JSONObject_loop pairs s =
     (case scanstring [] s of
        Inl e \<Rightarrow> Inl e
      | Inr (key, r) \<Rightarrow>
          (case skip_ws r of
             [] \<Rightarrow> Inl expecting_colon
           | d # r1 \<Rightarrow>
               if d \<noteq> ch CHR '':'' then Inl expecting_colon
               else
                 (case scan_once (skip_ws r1) of
                    Inl e \<Rightarrow> Inl e
                  | Inr (v, r2) \<Rightarrow>
                      if length r2 < length (skip_ws r1) then
                        (case skip_ws r2 of
                           [] \<Rightarrow> Inl expecting_comma
                         | d2 # r3 \<Rightarrow>
                             if d2 = ch CHR ''}'' then
                               Inr (PDict (dict_of_pairs (pairs @ [(key, v)])), r3)
                             else if d2 \<noteq> ch CHR '','' then Inl expecting_comma
                             else
                               (case skip_ws r3 of
                                  [] \<Rightarrow> Inl expecting_name
                                | q # r4 \<Rightarrow>
                                    if q = DQUOTE then JSONObject_loop (pairs @ [(key, v)]) r4
                                    else Inl expecting_name))
                      else Inl expecting_value)))"
  by pat_completeness auto
termination
proof -
  have ws: "length (skip_ws s) = length s - length (takeWhile is_json_ws s)" for s
    unfolding skip_ws_def by (induction s) auto
  have ws_cons: "length r < length s" if "skip_ws s = d # r" for s d r
    using ws [of s] that by simp
  have hex: "length r < length s" if "decode_uXXXX s = Some (u, r)" for s u r
    using that by (induction s rule: decode_uXXXX.induct) (auto split: option.splits)
  have str: "length r \<le> length s" if "scanstring acc s = Inr (k, r)" for acc s k r
    using that
  proof (induction s arbitrary: acc rule: length_induct)
    case (1 s)
    have IH: "length t < length s \<longrightarrow> length r \<le> length t"
      if "scanstring a t = Inr (k, r)" for a t
      using 1 that by blast
    show ?case
    proof (cases s)
      case Nil
      with 1 show ?thesis by simp
    next
      case (Cons c cs)
      show ?thesis
        using "1.prems" unfolding Cons
        apply (simp split: if_splits list.splits option.splits prod.splits)
        apply (auto simp: Cons dest!: hex IH)
        done
    qed
  qed
  show ?thesis
    apply (relation "measure (\<lambda>x. case x of
              Inl s \<Rightarrow> 2 * length s
            | Inr (Inl (values, s)) \<Rightarrow> 2 * length s + 1
            | Inr (Inr (pairs, s)) \<Rightarrow> 2 * length s + 1)")
    apply (auto simp: ws dest!: ws_cons str)
    done
qed

text \<open>
  \<open>json.loads(s)\<close> for a \<open>str\<close>: no byte order mark, one value between optional
  whitespace, and nothing after it.
\<close>

definition json_loads :: "ustring \<Rightarrow> py_exn + pyval" where
  "json_loads s =
     (if take 1 s = [0xFEFF] then Inl (decode_error ''Unexpected UTF-8 BOM (decode using utf-8-sig)'')
      else
        (case scan_once (skip_ws s) of
           Inl e \<Rightarrow> Inl e
         | Inr (obj, r) \<Rightarrow>
             if skip_ws r = [] then Inr obj else Inl (decode_error ''Extra data'')))"

section \<open>\<open>parse_json_block\<close>\<close>

text \<open>\<open>s.replace(a, b)\<close> for one-character \<open>a\<close> and \<open>b\<close>.\<close>

definition replace_char :: "nat \<Rightarrow> nat \<Rightarrow> ustring \<Rightarrow> ustring" where
  "replace_char a b s = map (\<lambda>c. if c = a then b else c) s"

text \<open>
  The three replacements of line 67: left and right double quotation mark (U+201C,
  U+201D) to the ASCII double quote, right single quotation mark (U+2019) to the
  apostrophe.
\<close>

definition normalize_quotes :: "ustring \<Rightarrow> ustring" where
  "normalize_quotes text =
     replace_char 0x2019 0x27 (replace_char 0x201D DQUOTE (replace_char 0x201C DQUOTE text))"

text \<open>
  \<open>re.search(r"\{.*\}", text, re.DOTALL)\<close>: the leftmost match starts at the first
  \<open>{\<close> and, \<open>.*\<close> being greedy and matching every character, ends at the last
  \<open>}\<close> after it; without a \<open>}\<close> after the first \<open>{\<close> nothing matches.
\<close>

definition search_braces :: "ustring \<Rightarrow> ustring option" where
  "search_braces text =
     (case dropWhile (\<lambda>c. c \<noteq> ch CHR ''{'') text of
        [] \<Rightarrow> None
      | b # rest \<Rightarrow>
          if ch CHR ''}'' \<in> set rest
          then Some (b # rev (dropWhile (\<lambda>c. c \<noteq> ch CHR ''}'') (rev rest)))
          else None)"

text \<open>
  The class \<open>\s\<close> of a \<open>str\<close> pattern: the characters for which \<open>str.isspace\<close>
  holds.
\<close>

definition is_space :: "nat \<Rightarrow> bool" where
  "is_space c =
     ((0x09 \<le> c \<and> c \<le> 0x0D) \<or> (0x1C \<le> c \<and> c \<le> 0x20) \<or> c = 0x85 \<or> c = 0xA0
      \<or> c = 0x1680 \<or> (0x2000 \<le> c \<and> c \<le> 0x200A) \<or> c = 0x2028 \<or> c = 0x2029
      \<or> c = 0x202F \<or> c = 0x205F \<or> c = 0x3000)"

text \<open>
  \<open>re.sub(r",\s*([}\]])", r"\1", candidate)\<close>: from left to right, a comma followed
  by whitespace and then \<open>}\<close> or \<open>]\<close> is replaced by that bracket, and the scan
  goes on after the bracket; any other character is copied.
\<close>

function strip_trailing_commas :: "ustring \<Rightarrow> ustring" where
  "strip_trailing_commas [] = []"
| "strip_trailing_commas (c # cs) =
     (if c = ch CHR '','' then
        (case dropWhile is_space cs of
           [] \<Rightarrow> c # strip_trailing_commas cs
         | d # ds \<Rightarrow>
             if d = ch CHR ''}'' \<or> d = ch CHR '']'' then d # strip_trailing_commas ds
             else c # strip_trailing_commas cs)
      else c # strip_trailing_commas cs)"
  by pat_completeness auto
termination
proof -
  have drop_cons: "length ds < length cs" if "dropWhile P cs = d # ds" for P cs d ds
    using length_dropWhile_le [of P cs] that by simp
  show ?thesis
    by (relation "measure length") (auto dest!: drop_cons)
qed

text \<open>
  Lines 68 to 70: the JSON candidate recovered from the normalized text, the matched
  span or else the whole text, with the trailing commas stripped.
\<close>

definition json_candidate :: "ustring \<Rightarrow> ustring" where
  "json_candidate text =
     (let candidate = (case search_braces text of Some m \<Rightarrow> m | None \<Rightarrow> text)
      in strip_trailing_commas candidate)"

text \<open>
  The function of lines 65 to 74 on a \<open>str\<close>; \<open>except Exception\<close> catches what
  \<open>json.loads\<close> raises.
\<close>

definition parse_json_block :: "ustring \<Rightarrow> py_exn + pyval" where
  "parse_json_block text0 =
     (let text = normalize_quotes text0
      in case json_loads (json_candidate text) of
           Inr v \<Rightarrow> Inr v
         | Inl e \<Rightarrow> Inr (PDict [(ustr ''raw_text'', PStr text)]))"

section \<open>Operations of the interpreter\<close>

text \<open>
  The operations below raise as the interpreter does on a value of the wrong type; the
  messages follow the wording of CPython 3.12.
\<close>

abbreviation (input) APOS :: nat where
  "APOS \<equiv> 0x27"

fun type_name :: "pyval \<Rightarrow> ustring" where
  "type_name PNone = ustr ''NoneType''"
| "type_name (PBool b) = ustr ''bool''"
| "type_name (PInt n) = ustr ''int''"
| "type_name (PFloat f) = ustr ''float''"
| "type_name (PStr s) = ustr ''str''"
| "type_name (PList xs) = ustr ''list''"
| "type_name (PDict d) = ustr ''dict''"

definition quoted :: "ustring \<Rightarrow> ustring" where
  "quoted s = [APOS] @ s @ [APOS]"

definition no_attribute :: "pyval \<Rightarrow> string \<Rightarrow> py_exn" where
  "no_attribute v attr =
     Raised AttributeError
       (quoted (type_name v) @ ustr '' object has no attribute '' @ quoted (ustr attr))"

text \<open>Iteration, \<open>for x in v\<close>: a list gives its elements, a dict its keys, a string its characters.\<close>

fun py_iter :: "pyval \<Rightarrow> py_exn + pyval list" where
  "py_iter (PList xs) = Inr xs"
| "py_iter (PDict d) = Inr (map (\<lambda>(k, v). PStr k) d)"
| "py_iter (PStr s) = Inr (map (\<lambda>c. PStr [c]) s)"
| "py_iter v = Inl (Raised TypeError (quoted (type_name v) @ ustr '' object is not iterable''))"

text \<open>\<open>sub in s\<close> for two strings: \<open>sub\<close> occurs in \<open>s\<close>.\<close>

fun is_substring :: "ustring \<Rightarrow> ustring \<Rightarrow> bool" where
  "is_substring sub [] = (sub = [])"
| "is_substring sub (c # cs) = (take (length sub) (c # cs) = sub \<or> is_substring sub cs)"

text \<open>\<open>k in v\<close> for a string \<open>k\<close>.\<close>

fun py_contains :: "pyval \<Rightarrow> ustring \<Rightarrow> py_exn + bool" where
  "py_contains (PDict d) k = Inr (map_of d k \<noteq> None)"
| "py_contains (PList xs) k = Inr (PStr k \<in> set xs)"
| "py_contains (PStr s) k = Inr (is_substring k s)"
| "py_contains v k =
     Inl (Raised TypeError (ustr ''argument of type '' @ quoted (type_name v) @ ustr '' is not iterable''))"

text \<open>\<open>v[k]\<close> for a string \<open>k\<close>.\<close>

fun py_getitem :: "pyval \<Rightarrow> ustring \<Rightarrow> py_exn + pyval" where
  "py_getitem (PDict d) k =
     (case map_of d k of
        Some v \<Rightarrow> Inr v
      | None \<Rightarrow> Inl (Raised KeyError (quoted k)))"
| "py_getitem (PList xs) k =
     Inl (Raised TypeError (ustr ''list indices must be integers or slices, not str''))"
| "py_getitem (PStr s) k =
     Inl (Raised TypeError (ustr ''string indices must be integers, not '' @ quoted (ustr ''str'')))"
| "py_getitem v k =
     Inl (Raised TypeError (quoted (type_name v) @ ustr '' object is not subscriptable''))"

text \<open>\<open>v[k] = x\<close> for a string \<open>k\<close>.\<close>

fun py_setitem :: "pyval \<Rightarrow> ustring \<Rightarrow> pyval \<Rightarrow> py_exn + pyval" where
  "py_setitem (PDict d) k x = Inr (PDict (dict_set k x d))"
| "py_setitem v k x =
     Inl (Raised TypeError
            (quoted (type_name v) @ ustr '' object does not support item assignment''))"

text \<open>\<open>m.get(k, default)\<close>: only a dict has the method.\<close>

fun py_get :: "pyval \<Rightarrow> ustring \<Rightarrow> pyval \<Rightarrow> py_exn + pyval" where
  "py_get (PDict d) k dflt = Inr (dict_get d k dflt)"
| "py_get v k dflt = Inl (no_attribute v ''get'')"

text \<open>The decimal digits of a number.\<close>

function show_nat :: "nat \<Rightarrow> ustring" where
  "show_nat n = (if n < 10 then [ch CHR ''0'' + n] else show_nat (n div 10) @ [ch CHR ''0'' + n mod 10])"
  by pat_completeness auto
termination
  by (relation "measure id") auto

text \<open>
  \<open>"".join(parts)\<close>: the concatenation, or the \<open>TypeError\<close> at the first part that is
  not a string; \<open>i\<close> is the index of the head of the list.
\<close>

fun join_from :: "nat \<Rightarrow> pyval list \<Rightarrow> py_exn + ustring" where
  "join_from i [] = Inr []"
| "join_from i (PStr s # ps) =
     (case join_from (Suc i) ps of
        Inl e \<Rightarrow> Inl e
      | Inr r \<Rightarrow> Inr (s @ r))"
| "join_from i (v # ps) =
     Inl (Raised TypeError
            (ustr ''sequence item '' @ show_nat i @ ustr '': expected str instance, ''
             @ type_name v @ ustr '' found''))"

definition py_join :: "pyval list \<Rightarrow> py_exn + ustring" where
  "py_join parts = join_from 0 parts"

section \<open>\<open>extract_text_from_response\<close>\<close>

text \<open>
  What the function probes of the response object: the attribute \<open>output_text\<close>
  (\<open>None\<close> here when the object has no such attribute), the attribute \<open>output\<close>
  (field \<open>output_seq\<close>, likewise), and \<open>str(response)\<close>.
\<close>

record response =
  output_text :: "pyval option"
  output_seq :: "pyval option"
  rendering :: ustring

text \<open>The inner loop, lines 54 to 58, over the elements of a \<open>content\<close> list.\<close>

fun collect_content :: "pyval list \<Rightarrow> pyval list \<Rightarrow> pyval list" where
  "collect_content parts [] = parts"
| "collect_content parts (c # cs) =
     (case c of
        PStr s \<Rightarrow> collect_content (parts @ [c]) cs
      | PDict d \<Rightarrow>
          (case map_of d (ustr ''text'') of
             Some t \<Rightarrow> collect_content (parts @ [t]) cs
           | None \<Rightarrow> collect_content parts cs)
      | _ \<Rightarrow> collect_content parts cs)"

text \<open>The outer loop, lines 50 to 60, over the blocks.\<close>

fun collect_blocks :: "pyval list \<Rightarrow> pyval list \<Rightarrow> pyval list" where
  "collect_blocks parts [] = parts"
| "collect_blocks parts (block # bs) =
     (case block of
        PDict d \<Rightarrow>
          (case dict_get d (ustr ''content'') PNone of
             PList cs \<Rightarrow> collect_blocks (collect_content parts cs) bs
           | PStr s \<Rightarrow> collect_blocks (parts @ [PStr s]) bs
           | _ \<Rightarrow> collect_blocks parts bs)
      | _ \<Rightarrow> collect_blocks parts bs)"

definition extract_text_from_response :: "response \<Rightarrow> py_exn + pyval" where
  "extract_text_from_response r =
     (if (case output_text r of None \<Rightarrow> False | Some t \<Rightarrow> truthy t)
      then (case output_text r of None \<Rightarrow> Inr PNone | Some t \<Rightarrow> Inr t)
      else
        (let out = (case output_seq r of None \<Rightarrow> PNone | Some v \<Rightarrow> v)
         in if truthy out then
              (case py_iter out of
                 Inl e \<Rightarrow> Inl e
               | Inr blocks \<Rightarrow>
                   (case py_join (collect_blocks [] blocks) of
                      Inl e \<Rightarrow> Inl e
                    | Inr s \<Rightarrow> Inr (PStr s)))
            else Inr (PStr (rendering r))))"




section \<open>The outside world\<close>

text \<open>
  The calls that leave the process are recorded in a trace: the call of the generation
  API with its prompt (model, temperature 0.7 and 700 output tokens are fixed), and the
  GET request to the metadata provider with its parameters.
\<close>

datatype call = ResponsesCreate ustring | OmdbGet pydict

text \<open>
  The environment of a request: the provider credential read at startup
  (\<open>os.getenv\<close>: a string or \<open>None\<close>), what \<open>client.responses.create\<close> does on a
  prompt and what \<open>requests.get\<close> followed by \<open>res.json()\<close> does on the parameters
  (the value, or the exception raised by either), both as functions of the calls made
  so far, and \<open>str\<close> of a value that is not a string, which is the interpreter's and
  is not modelled.
\<close>

record env =
  OMDB_API_KEY :: "ustring option"
  responses_create :: "call list \<Rightarrow> ustring \<Rightarrow> py_exn + response"
  omdb_get :: "call list \<Rightarrow> pydict \<Rightarrow> py_exn + pyval"
  str_of_value :: "pyval \<Rightarrow> ustring"

section \<open>\<open>build_prompt\<close>\<close>

definition example_json :: ustring where
  \<open>example_json =
     ustr ''{"movies": [{"title": "In the Mood for Love", "year": "2000", "why": "A melancholic and visually poetic film about longing."}],"songs": [{"title": "The Look of Love", "artist": "Dusty Springfield", "why": "Smooth and romantic."}]}''\<close>

definition build_prompt :: "ustring \<Rightarrow> ustring" where
  "build_prompt mood =
     ustr ''You are a helpful movie curator. Based on the user'' @ [APOS] @ ustr ''s mood ''
     @ [APOS] @ mood @ [APOS] @ ustr '', suggest 3 movies and 3 songs.'' @ [0x0A]
     @ ustr ''Output a valid JSON object with keys '' @ quoted (ustr ''movies'')
     @ ustr '' and '' @ quoted (ustr ''songs'') @ ustr ''.'' @ [0x0A]
     @ ustr ''Each movie must have: title, year (if known), why (1 sentence).'' @ [0x0A]
     @ ustr ''Each song must have: title, artist (if known), why (1 sentence).'' @ [0x0A]
     @ ustr ''Return strictly JSON, no other text.'' @ [0x0A]
     @ ustr ''Example:'' @ [0x0A]
     @ example_json"

text \<open>The replacement field \<open>{mood}\<close> of the f-string: a string as it is, another value by \<open>str\<close>.\<close>

definition format_value :: "env \<Rightarrow> pyval \<Rightarrow> ustring" where
  "format_value e v = (case v of PStr s \<Rightarrow> s | _ \<Rightarrow> str_of_value e v)"

section \<open>\<open>omdb_lookup\<close>\<close>

type_synonym metadata = "pyval \<times> pyval \<times> pyval \<times> pyval"

definition all_absent :: metadata where
  "all_absent = (PNone, PNone, PNone, PNone)"

text \<open>The parameters of the request, lines 82 to 84.\<close>

definition omdb_params :: "ustring \<Rightarrow> pyval \<Rightarrow> pyval \<Rightarrow> pydict" where
  "omdb_params key title year =
     (let params = [(ustr ''t'', title), (ustr ''apikey'', PStr key)]
      in if truthy year then dict_set (ustr ''y'') year params else params)"

text \<open>
  The body of the \<open>try\<close>, lines 82 to 93, with a credential \<open>key\<close>: the request is
  recorded, and the result is the exception raised, or the tuple returned at line 88,
  or nothing when the \<open>if\<close> of line 87 is not taken. Only a dict has the method
  \<open>get\<close> of line 87.
\<close>

definition omdb_request :: "env \<Rightarrow> call list \<Rightarrow> ustring \<Rightarrow> pyval \<Rightarrow> pyval
    \<Rightarrow> (py_exn + metadata option) \<times> call list" where
  "omdb_request e tr key title year =
     (let params = omdb_params key title year;
          tr' = tr @ [OmdbGet params]
      in case omdb_get e tr params of
           Inl ex \<Rightarrow> (Inl ex, tr')
         | Inr data \<Rightarrow>
             (case data of
                PDict d \<Rightarrow>
                  if dict_get d (ustr ''Response'') PNone = PStr (ustr ''True'') then
                    (Inr (Some
                       (if dict_get d (ustr ''Poster'') PNone \<noteq> PStr (ustr ''N/A'')
                        then dict_get d (ustr ''Poster'') PNone else PNone,
                        dict_get d (ustr ''Year'') PNone,
                        dict_get d (ustr ''Genre'') PNone,
                        dict_get d (ustr ''Plot'') PNone)), tr')
                  else (Inr None, tr')
              | _ \<Rightarrow> (Inl (no_attribute data ''get''), tr')))"

text \<open>
  The function of lines 77 to 96: without a credential nothing is requested; the
  \<open>except Exception: pass\<close> turns every exception of the body into the fall-through
  to line 96.
\<close>

definition omdb_lookup :: "env \<Rightarrow> call list \<Rightarrow> pyval \<Rightarrow> pyval
    \<Rightarrow> (py_exn + metadata) \<times> call list" where
  "omdb_lookup e tr title year =
     (case OMDB_API_KEY e of
        None \<Rightarrow> (Inr all_absent, tr)
      | Some key \<Rightarrow>
          if key = [] then (Inr all_absent, tr)
          else
            (case omdb_request e tr key title year of
               (Inl ex, tr') \<Rightarrow> (Inr all_absent, tr')
             | (Inr (Some found), tr') \<Rightarrow> (Inr found, tr')
             | (Inr None, tr') \<Rightarrow> (Inr all_absent, tr')))"

section \<open>\<open>recommend\<close>\<close>

text \<open>
  The result of a request: the JSON body given to \<open>jsonify\<close> with the status (200
  when the view returns no status), or an exception that leaves the view.
\<close>

datatype http_result = HttpResponse nat pyval | Unhandled py_exn

definition PLACEHOLDER :: ustring where
  "PLACEHOLDER = ustr ''/static/poster-placeholder.png''"

text \<open>The dict appended at lines 135 to 142.\<close>

definition enriched_movie :: "pyval \<Rightarrow> pyval \<Rightarrow> pyval \<Rightarrow> metadata \<Rightarrow> pyval" where
  "enriched_movie title year why found =
     (case found of (poster, real_year, genre, plot) \<Rightarrow>
        PDict [(ustr ''title'', title),
               (ustr ''year'', py_or real_year year),
               (ustr ''why'', why),
               (ustr ''poster_url'', py_or poster (PStr PLACEHOLDER)),
               (ustr ''genre'', genre),
               (ustr ''plot'', plot)])"

text \<open>One turn of the loop of line 130, lines 131 to 142, for the movie \<open>m\<close>.\<close>

definition enrich_movie :: "env \<Rightarrow> call list \<Rightarrow> pyval \<Rightarrow> (py_exn + pyval) \<times> call list" where
  "enrich_movie e tr m =
     (case py_get m (ustr ''title'') PNone of
        Inl ex \<Rightarrow> (Inl ex, tr)
      | Inr title \<Rightarrow>
          (case py_get m (ustr ''year'') PNone of
             Inl ex \<Rightarrow> (Inl ex, tr)
           | Inr year \<Rightarrow>
               (case py_get m (ustr ''why'') (PStr []) of
                  Inl ex \<Rightarrow> (Inl ex, tr)
                | Inr why \<Rightarrow>
                    (case omdb_lookup e tr title year of
                       (Inl ex, tr') \<Rightarrow> (Inl ex, tr')
                     | (Inr found, tr') \<Rightarrow> (Inr (enriched_movie title year why found), tr')))))"

text \<open>The loop of line 130 over the movies left, \<open>enriched\<close> being the list built so far.\<close>

fun enrich_loop :: "env \<Rightarrow> call list \<Rightarrow> pyval list \<Rightarrow> pyval list
    \<Rightarrow> (py_exn + pyval list) \<times> call list" where
  "enrich_loop e tr enriched [] = (Inr enriched, tr)"
| "enrich_loop e tr enriched (m # ms) =
     (case enrich_movie e tr m of
        (Inl ex, tr') \<Rightarrow> (Inl ex, tr')
      | (Inr entry, tr') \<Rightarrow> enrich_loop e tr' (enriched @ [entry]) ms)"

text \<open>\<open>parse_json_block(text)\<close> for any value: \<open>text.replace\<close> needs a string.\<close>

definition parse_json_block_value :: "pyval \<Rightarrow> py_exn + pyval" where
  "parse_json_block_value text =
     (case text of
        PStr s \<Rightarrow> parse_json_block s
      | _ \<Rightarrow> Inl (no_attribute text ''replace''))"

text \<open>
  Lines 122 to 144, what follows the call of the generation API inside the \<open>try\<close>:
  the response returned, or the exception raised.
\<close>

definition process_response :: "env \<Rightarrow> call list \<Rightarrow> response
    \<Rightarrow> (py_exn + http_result) \<times> call list" where
  "process_response e tr response =
     (case extract_text_from_response response of
        Inl ex \<Rightarrow> (Inl ex, tr)
      | Inr text \<Rightarrow>
          (case parse_json_block_value text of
             Inl ex \<Rightarrow> (Inl ex, tr)
           | Inr parsed \<Rightarrow>
               (case py_contains parsed (ustr ''movies'') of
                  Inl ex \<Rightarrow> (Inl ex, tr)
                | Inr False \<Rightarrow>
                    (Inr (HttpResponse 200
                            (PDict [(ustr ''error'', PStr (ustr ''No movie data returned'')),
                                    (ustr ''raw'', text)])), tr)
                | Inr True \<Rightarrow>
                    (case py_getitem parsed (ustr ''movies'') of
                       Inl ex \<Rightarrow> (Inl ex, tr)
                     | Inr movies \<Rightarrow>
                         (case py_iter movies of
                            Inl ex \<Rightarrow> (Inl ex, tr)
                          | Inr ms \<Rightarrow>
                              (case enrich_loop e tr [] ms of
                                 (Inl ex, tr') \<Rightarrow> (Inl ex, tr')
                               | (Inr enriched, tr') \<Rightarrow>
                                   (case py_setitem parsed (ustr ''movies'') (PList enriched) of
                                      Inl ex \<Rightarrow> (Inl ex, tr')
                                    | Inr parsed' \<Rightarrow>
                                        (Inr (HttpResponse 200
                                                (PDict [(ustr ''recommendations'', parsed')])),
                                         tr'))))))))"

text \<open>
  The view of lines 106 to 147 on the value \<open>request.get_json()\<close> returned, with the
  calls it made. \<open>data.get\<close> of line 109 is outside the \<open>try\<close>.
\<close>

definition recommend :: "env \<Rightarrow> pyval \<Rightarrow> http_result \<times> call list" where
  "recommend e request_json =
     (let data = py_or request_json (PDict [])
      in case py_get data (ustr ''mood'') PNone of
           Inl ex \<Rightarrow> (Unhandled ex, [])
         | Inr mood \<Rightarrow>
             if \<not> truthy mood then
               (HttpResponse 400 (PDict [(ustr ''error'', PStr (ustr ''Mood is required''))]), [])
             else
               (let prompt = build_prompt (format_value e mood);
                    tr = [ResponsesCreate prompt];
                    (outcome, tr') =
                      (case responses_create e [] prompt of
                         Inl ex \<Rightarrow> (Inl ex, tr)
                       | Inr response \<Rightarrow> process_response e tr response)
                in case outcome of
                     Inr result \<Rightarrow> (result, tr')
                   | Inl ex \<Rightarrow>
                       (HttpResponse 500
                          (PDict [(ustr ''error'', PStr (ustr ''OpenAI request failed'')),
                                  (ustr ''details'', PStr (exn_str ex))]), tr')))"

text \<open>
  In the words of the specification: a provider response indicating success is a keyed
  structure whose \<open>Response\<close> field is \<open>"True"\<close>.
\<close>

definition provider_success :: "pyval \<Rightarrow> bool" where
  "provider_success data =
     (case data of
        PDict d \<Rightarrow> map_of d (ustr ''Response'') = Some (PStr (ustr ''True''))
      | _ \<Rightarrow> False)"

text \<open>The title and the year of a movie suggestion, as lines 131 and 132 read them.\<close>

definition title_of :: "pydict \<Rightarrow> pyval" where
  "title_of m = dict_get m (ustr ''title'') PNone"

definition year_of :: "pydict \<Rightarrow> pyval" where
  "year_of m = dict_get m (ustr ''year'') PNone"

text \<open>
  An enriched entry for the movie suggestion \<open>m\<close>: the dict of lines 135 to 142 built
  from the fields of \<open>m\<close> and from what some call of \<open>omdb_lookup\<close> on its title and
  year returned.
\<close>

definition enrichment_of :: "env \<Rightarrow> pyval \<Rightarrow> pyval \<Rightarrow> bool" where
  "enrichment_of e m entry =
     (\<exists>d tr found tr'.
        m = PDict d
        \<and> omdb_lookup e tr (title_of d) (year_of d) = (Inr found, tr')
        \<and> entry = enriched_movie (title_of d) (year_of d)
                    (dict_get d (ustr ''why'') (PStr [])) found)"

text \<open>
  The provider's payloads are well typed when the \<open>Poster\<close> field of a payload, if it
  has one, is a string or \<open>null\<close>.
\<close>

definition posters_are_text :: "env \<Rightarrow> bool" where
  "posters_are_text e =
     (\<forall>tr params d v. omdb_get e tr params = Inr (PDict d) \<and> map_of d (ustr ''Poster'') = Some v
        \<longrightarrow> v = PNone \<or> (\<exists>url. v = PStr url))"

text \<open>
  The \<open>poster_url\<close> of an entry is truthy (not \<open>None\<close>, not empty, not zero), and it
  is the placeholder or the \<open>Poster\<close> of a success payload of the provider, other
  than the marker \<open>N/A\<close>.
\<close>

definition poster_url_source :: "env \<Rightarrow> pyval \<Rightarrow> bool" where
  "poster_url_source e entry =
     (case entry of
        PDict f \<Rightarrow>
          (case map_of f (ustr ''poster_url'') of
             Some v \<Rightarrow>
               truthy v
               \<and> (v = PStr PLACEHOLDER
                  \<or> (\<exists>tr params d.
                        omdb_get e tr params = Inr (PDict d)
                        \<and> map_of d (ustr ''Response'') = Some (PStr (ustr ''True''))
                        \<and> map_of d (ustr ''Poster'') = Some v
                        \<and> v \<noteq> PStr (ustr ''N/A'')))
           | None \<Rightarrow> False)
      | _ \<Rightarrow> False)"

text \<open>The \<open>poster_url\<close> of an entry is a non-empty string.\<close>

definition poster_url_nonempty :: "pyval \<Rightarrow> bool" where
  "poster_url_nonempty entry =
     (case entry of
        PDict d \<Rightarrow>
          (case map_of d (ustr ''poster_url'') of
             Some (PStr url) \<Rightarrow> url \<noteq> []
           | _ \<Rightarrow> False)
      | _ \<Rightarrow> False)"

text \<open>
  Environments for examples: the credential \<open>key\<close>, a generation API that always
  answers \<open>gen\<close> and a metadata provider that always answers \<open>omdb\<close>; and the
  response object whose \<open>output_text\<close> is a given text.
\<close>

definition env_of :: "ustring option \<Rightarrow> py_exn + response \<Rightarrow> py_exn + pyval \<Rightarrow> env" where
  "env_of key gen omdb =
     \<lparr>OMDB_API_KEY = key,
      responses_create = (\<lambda>tr prompt. gen),
      omdb_get = (\<lambda>tr params. omdb),
      str_of_value = (\<lambda>v. [])\<rparr>"

definition reply :: "ustring \<Rightarrow> response" where
  "reply text = \<lparr>output_text = Some (PStr text), output_seq = Some (PList []), rendering = []\<rparr>"

definition timeout_error :: py_exn where
  "timeout_error = Raised ExternalError (ustr ''Read timed out.'')"

text \<open>
  Success payloads of the provider: with a poster, with the marker \<open>N/A\<close>, with
  \<open>null\<close> as poster, and with a number as poster.
\<close>

definition poster_payload :: pyval where
  "poster_payload =
     PDict [(ustr ''Title'', PStr (ustr ''X'')),
            (ustr ''Year'', PStr (ustr ''2000'')),
            (ustr ''Poster'', PStr (ustr ''https://img.example/x.jpg'')),
            (ustr ''Response'', PStr (ustr ''True''))]"

definition no_poster_payload :: pyval where
  "no_poster_payload =
     PDict [(ustr ''Title'', PStr (ustr ''X'')),
            (ustr ''Poster'', PStr (ustr ''N/A'')),
            (ustr ''Response'', PStr (ustr ''True''))]"

definition null_poster_payload :: pyval where
  "null_poster_payload =
     PDict [(ustr ''Title'', PStr (ustr ''X'')),
            (ustr ''Poster'', PNone),
            (ustr ''Response'', PStr (ustr ''True''))]"

definition numeric_poster_payload :: pyval where
  "numeric_poster_payload =
     PDict [(ustr ''Title'', PStr (ustr ''X'')),
            (ustr ''Poster'', PInt 5),
            (ustr ''Response'', PStr (ustr ''True''))]"

section \<open>Properties\<close>

lemmas eval_defs =
  parse_json_block_def json_candidate_def normalize_quotes_def replace_char_def
  search_braces_def json_loads_def skip_ws_def ustr_def is_json_ws_def is_space_def
  is_digit_def digits_val_def match_number_def match_exponent_def decode_error_def
  expecting_value_def expecting_name_def expecting_comma_def expecting_colon_def
  dict_of_pairs_def Let_def

subsection \<open>The decoder moves forward\<close>

text \<open>
  Every successful scan consumes at least one character, so the tests on the length in
  \<open>JSONArray_loop\<close> and \<open>JSONObject_loop\<close> never fail.
\<close>

lemma decode_uXXXX_shorter: "decode_uXXXX s = Some (u, r) \<Longrightarrow> length r < length s"
  by (induction s rule: decode_uXXXX.induct) (auto split: option.splits)

lemma scanstring_advances: "scanstring acc s = Inr (k, r) \<Longrightarrow> length r < length s"
proof (induction s arbitrary: acc rule: length_induct)
  case (1 s)
  have IH: "length t < length s \<longrightarrow> length r < length t"
    if "scanstring a t = Inr (k, r)" for a t
    using 1 that by blast
  show ?case
  proof (cases s)
    case Nil
    with 1 show ?thesis by simp
  next
    case (Cons c cs)
    show ?thesis
      using "1.prems" unfolding Cons
      apply (simp split: if_splits list.splits option.splits prod.splits)
      apply (auto simp: Cons dest!: decode_uXXXX_shorter IH)
      done
  qed
qed

lemma skip_ws_length: "length (skip_ws s) = length s - length (takeWhile is_json_ws s)"
  unfolding skip_ws_def by (induction s) auto

lemma skip_ws_cons: "skip_ws s = d # r \<Longrightarrow> length r < length s"
  using skip_ws_length [of s] by simp

lemma dropWhile_length: "length (dropWhile P xs) = length xs - length (takeWhile P xs)"
  by (induction xs) auto

lemma dropWhile_cons_shorter: "dropWhile P xs = d # r \<Longrightarrow> length r < length xs"
  using length_dropWhile_le [of P xs] by simp

lemma match_exponent_advances: "match_exponent s = Some (x, r) \<Longrightarrow> length r < length s"
  by (auto simp: match_exponent_def Let_def dropWhile_length split: list.splits if_splits)

lemma match_number_advances: "match_number s = Some (v, r) \<Longrightarrow> length r < length s"
  by (auto simp: match_number_def Let_def dropWhile_length
      split: list.splits if_splits option.splits prod.splits
      dest!: match_exponent_advances dropWhile_cons_shorter)

lemmas scan_simps = scan_once.simps JSONArray_loop.simps JSONObject_loop.simps

lemma scan_once_advances:
  "scan_once s = Inr (v, r) \<Longrightarrow> length r < length s"
  "JSONArray_loop vs s = Inr (v, r) \<Longrightarrow> length r < length s"
  "JSONObject_loop ps s = Inr (v, r) \<Longrightarrow> length r < length s"
proof (induction s and vs s and ps s arbitrary: v r and v r and v r
    rule: scan_once_JSONArray_loop_JSONObject_loop.induct)
  case (1 s)
  have brace: "(123::nat) \<noteq> 34" "(123::nat) = of_char CHR ''{''"
    "(34::nat) \<noteq> of_char CHR ''}''" "(34::nat) = 34"
    by simp_all
  have bracket: "(91::nat) \<noteq> 34" "(91::nat) \<noteq> of_char CHR ''{''"
    "(91::nat) = of_char CHR ''[''"
    by simp_all
  from "1.prems" show ?case
    apply (subst (asm) scan_once.simps)
    apply (auto simp del: scan_simps simp: ustr_def
        split: list.splits if_splits sum.splits option.splits prod.splits
        dest!: scanstring_advances match_number_advances dest: skip_ws_cons)
    subgoal premises p for x22
      using "1.IH"(2) [OF p(1) bracket p(2) p(3)] by simp
    subgoal premises p for x22 x22a
      using "1.IH"(1) [OF p(1) brace(1,2) p(2) brace(3,4) p(3)] skip_ws_cons [OF p(2)] by simp
    subgoal premises p for x22 x21a x22a
    proof -
      from p(3) have "x21a \<noteq> of_char CHR '']''" by simp
      from "1.IH"(3) [OF p(1) bracket p(2) this p(4)] skip_ws_cons [OF p(2)]
      show ?thesis by simp
    qed
    done
next
  case (2 vs s)
  from "2.prems" obtain v1 r1 where a: "scan_once s = Inr (v1, r1)"
    and b: "length r1 < length s"
    and c: "(case skip_ws r1 of
               [] \<Rightarrow> Inl expecting_comma
             | d # r' \<Rightarrow>
                 if d = of_char CHR '']'' then Inr (PList (vs @ [v1]), r')
                 else if d = of_char CHR '','' then JSONArray_loop (vs @ [v1]) (skip_ws r')
                 else Inl expecting_comma) = Inr (v, r)"
    by (subst (asm) JSONArray_loop.simps)
       (auto simp del: scan_simps split: sum.splits prod.splits if_splits)
  from c obtain d r' where d: "skip_ws r1 = d # r'"
    by (cases "skip_ws r1") (auto simp del: scan_simps)
  show ?case
  proof (cases "d = of_char CHR '']''")
    case True
    with c d have "r = r'"
      by (simp del: scan_simps)
    with skip_ws_cons [OF d] b show ?thesis by simp
  next
    case False
    with c d have comma: "d = of_char CHR '',''"
      and again: "JSONArray_loop (vs @ [v1]) (skip_ws r') = Inr (v, r)"
      by (auto simp del: scan_simps split: if_splits)
    from "2.IH"(2) [OF a refl b d False comma again]
    have "length r < length (skip_ws r')" .
    with skip_ws_length [of r'] skip_ws_cons [OF d] b show ?thesis by simp
  qed
next
  case (3 ps s)
  from "3.prems"
  have "\<exists>key r0 d r1 v1 r2 d2 r3.
      scanstring [] s = Inr (key, r0) \<and> skip_ws r0 = d # r1 \<and> d = of_char CHR '':''
      \<and> scan_once (skip_ws r1) = Inr (v1, r2) \<and> length r2 < length (skip_ws r1)
      \<and> skip_ws r2 = d2 # r3
      \<and> (d2 = of_char CHR ''}'' \<and> r = r3
          \<or> d2 \<noteq> of_char CHR ''}'' \<and> d2 = of_char CHR '',''
            \<and> (\<exists>q r4. skip_ws r3 = q # r4 \<and> q = 34
                  \<and> JSONObject_loop (ps @ [(key, v1)]) r4 = Inr (v, r)))"
    by (subst (asm) JSONObject_loop.simps)
       (auto simp del: scan_simps split: sum.splits prod.splits list.splits if_splits)
  then obtain key r0 d r1 v1 r2 d2 r3 where
    k: "scanstring [] s = Inr (key, r0)"
    and colon: "skip_ws r0 = d # r1" "d = of_char CHR '':''"
    and val: "scan_once (skip_ws r1) = Inr (v1, r2)" "length r2 < length (skip_ws r1)"
    and after: "skip_ws r2 = d2 # r3"
    and tail: "d2 = of_char CHR ''}'' \<and> r = r3
          \<or> d2 \<noteq> of_char CHR ''}'' \<and> d2 = of_char CHR '',''
            \<and> (\<exists>q r4. skip_ws r3 = q # r4 \<and> q = 34
                  \<and> JSONObject_loop (ps @ [(key, v1)]) r4 = Inr (v, r))"
    by blast
  have len: "length r3 < length s"
    using scanstring_advances [OF k] skip_ws_cons [OF colon(1)] skip_ws_length [of r1]
      val(2) skip_ws_cons [OF after]
    by simp
  from tail show ?case
  proof
    assume "d2 = of_char CHR ''}'' \<and> r = r3"
    with len show ?thesis by simp
  next
    assume more: "d2 \<noteq> of_char CHR ''}'' \<and> d2 = of_char CHR '',''
            \<and> (\<exists>q r4. skip_ws r3 = q # r4 \<and> q = 34
                  \<and> JSONObject_loop (ps @ [(key, v1)]) r4 = Inr (v, r))"
    then obtain q r4 where nb: "d2 \<noteq> of_char CHR ''}''" and cm: "d2 = of_char CHR '',''"
      and nxt: "skip_ws r3 = q # r4" and qt: "q = 34"
      and again: "JSONObject_loop (ps @ [(key, v1)]) r4 = Inr (v, r)"
      by blast
    from colon(2) have c': "\<not> d \<noteq> of_char CHR '':''" by blast
    from cm have cm': "\<not> d2 \<noteq> of_char CHR '',''" by blast
    from "3.IH"(2) [OF k refl colon(1) c' val(1) refl val(2) after nb cm' nxt qt again]
    have "length r < length r4" .
    with skip_ws_cons [OF nxt] len show ?thesis by simp
  qed
qed

text \<open>Hence the loops are those of \<open>json/decoder.py\<close>, without the tests.\<close>

lemma JSONArray_loop_unguarded:
  "JSONArray_loop values s =
     (case scan_once s of
        Inl e \<Rightarrow> Inl e
      | Inr (v, r) \<Rightarrow>
          (case skip_ws r of
             [] \<Rightarrow> Inl expecting_comma
           | d # r' \<Rightarrow>
               if d = of_char CHR '']'' then Inr (PList (values @ [v]), r')
               else if d = of_char CHR '','' then JSONArray_loop (values @ [v]) (skip_ws r')
               else Inl expecting_comma))"
  by (subst JSONArray_loop.simps)
     (auto simp del: scan_simps split: sum.splits dest: scan_once_advances(1))

lemma JSONObject_loop_unguarded:
  "JSONObject_loop pairs s =
     (case scanstring [] s of
        Inl e \<Rightarrow> Inl e
      | Inr (key, r) \<Rightarrow>
          (case skip_ws r of
             [] \<Rightarrow> Inl expecting_colon
           | d # r1 \<Rightarrow>
               if d \<noteq> of_char CHR '':'' then Inl expecting_colon
               else
                 (case scan_once (skip_ws r1) of
                    Inl e \<Rightarrow> Inl e
                  | Inr (v, r2) \<Rightarrow>
                      (case skip_ws r2 of
                         [] \<Rightarrow> Inl expecting_comma
                       | d2 # r3 \<Rightarrow>
                           if d2 = of_char CHR ''}'' then
                             Inr (PDict (dict_of_pairs (pairs @ [(key, v)])), r3)
                           else if d2 \<noteq> of_char CHR '','' then Inl expecting_comma
                           else
                             (case skip_ws r3 of
                                [] \<Rightarrow> Inl expecting_name
                              | q # r4 \<Rightarrow>
                                  if q = 34 then JSONObject_loop (pairs @ [(key, v)]) r4
                                  else Inl expecting_name)))))"
  by (subst JSONObject_loop.simps)
     (auto simp del: scan_simps split: sum.splits list.splits dest: scan_once_advances(1))

subsection \<open>The tolerant parser\<close>

text \<open>
  C2. For every input string \<open>parse_json_block\<close> returns a value and never raises:
  when the strict decoding of the recovered candidate succeeds it returns the decoded
  structure, when the decoding fails it returns exactly the fallback
  \<open>{"raw_text": <normalized text>}\<close>; and \<open>parse_json_block("no json here")\<close> is
  \<open>{"raw_text": "no json here"}\<close>.
\<close>

theorem parse_json_block_never_raises:
  "(\<exists>v. parse_json_block text = Inr v)
   \<and> (\<forall>v. json_loads (json_candidate (normalize_quotes text)) = Inr v
          \<longrightarrow> parse_json_block text = Inr v)
   \<and> (\<forall>e. json_loads (json_candidate (normalize_quotes text)) = Inl e
          \<longrightarrow> parse_json_block text
              = Inr (PDict [(ustr ''raw_text'', PStr (normalize_quotes text))]))
   \<and> parse_json_block (ustr ''no json here'')
       = Inr (PDict [(ustr ''raw_text'', PStr (ustr ''no json here''))])"
proof -
  have total: "\<exists>v. parse_json_block text = Inr v"
    by (cases "json_loads (json_candidate (normalize_quotes text))")
       (simp_all add: parse_json_block_def)
  have decoded: "\<forall>v. json_loads (json_candidate (normalize_quotes text)) = Inr v
          \<longrightarrow> parse_json_block text = Inr v"
    by (simp add: parse_json_block_def)
  have fallback: "\<forall>e. json_loads (json_candidate (normalize_quotes text)) = Inl e
          \<longrightarrow> parse_json_block text
              = Inr (PDict [(ustr ''raw_text'', PStr (normalize_quotes text))])"
    by (simp add: parse_json_block_def)
  have example: "parse_json_block (ustr ''no json here'')
       = Inr (PDict [(ustr ''raw_text'', PStr (ustr ''no json here''))])"
    by (simp add: eval_defs)
  from total decoded fallback example show ?thesis by blast
qed

theorem parse_json_block_never_raises_witness:
  \<open>json_loads (json_candidate (normalize_quotes (ustr ''{"songs": []}'')))
     = Inr (PDict [(ustr ''songs'', PList [])])
   \<and> parse_json_block (ustr ''{"songs": []}'') = Inr (PDict [(ustr ''songs'', PList [])])
   \<and> json_loads (json_candidate (normalize_quotes (ustr ''{"songs": [}'')))
       = Inl expecting_value
   \<and> parse_json_block (ustr ''{"songs": [}'')
       = Inr (PDict [(ustr ''raw_text'', PStr (ustr ''{"songs": [}''))])\<close>
proof -
  have ok: \<open>json_loads (json_candidate (normalize_quotes (ustr ''{"songs": []}'')))
     = Inr (PDict [(ustr ''songs'', PList [])])\<close>
    by (simp add: eval_defs)
  have bad: \<open>json_loads (json_candidate (normalize_quotes (ustr ''{"songs": [}'')))
       = Inl expecting_value\<close>
    by (simp add: eval_defs)
  have norm: \<open>normalize_quotes (ustr ''{"songs": [}'') = ustr ''{"songs": [}''\<close>
    by (simp add: eval_defs)
  show ?thesis
    using ok bad norm
      parse_json_block_never_raises [of \<open>ustr ''{"songs": []}''\<close>]
      parse_json_block_never_raises [of \<open>ustr ''{"songs": [}''\<close>]
    by simp
qed

text \<open>
  C3. Some input that is already strictly valid JSON and has no typographic quote is
  decoded by \<open>parse_json_block\<close> to a structure other than its strict decoding: in
  \<open>{"a": "x,}"}\<close> the comma inside the string literal is followed by \<open>}\<close>, the
  comma-stripping rewrite deletes it, and the string value \<open>x,}\<close> becomes \<open>x}\<close>.
\<close>

theorem comma_stripping_alters_string_literal:
  \<open>(\<exists>text v v'. normalize_quotes text = text \<and> json_loads text = Inr v
        \<and> parse_json_block text = Inr v' \<and> v \<noteq> v')
   \<and> normalize_quotes (ustr ''{"a": "x,}"}'') = ustr ''{"a": "x,}"}''
   \<and> json_loads (ustr ''{"a": "x,}"}'') = Inr (PDict [(ustr ''a'', PStr (ustr ''x,}''))])
   \<and> strip_trailing_commas (ustr ''{"a": "x,}"}'') = ustr ''{"a": "x}"}''
   \<and> parse_json_block (ustr ''{"a": "x,}"}'') = Inr (PDict [(ustr ''a'', PStr (ustr ''x}''))])\<close>
proof -
  have norm: \<open>normalize_quotes (ustr ''{"a": "x,}"}'') = ustr ''{"a": "x,}"}''\<close>
    by (simp add: eval_defs)
  have strict: \<open>json_loads (ustr ''{"a": "x,}"}'')
      = Inr (PDict [(ustr ''a'', PStr (ustr ''x,}''))])\<close>
    by (simp add: eval_defs)
  have stripped: \<open>strip_trailing_commas (ustr ''{"a": "x,}"}'') = ustr ''{"a": "x}"}''\<close>
    by (simp add: eval_defs)
  have tolerant: \<open>parse_json_block (ustr ''{"a": "x,}"}'')
      = Inr (PDict [(ustr ''a'', PStr (ustr ''x}''))])\<close>
    by (simp add: eval_defs)
  have differ: \<open>PDict [(ustr ''a'', PStr (ustr ''x,}''))] \<noteq> PDict [(ustr ''a'', PStr (ustr ''x}''))]\<close>
    by (simp add: ustr_def)
  from norm strict tolerant differ
  have \<open>\<exists>text v v'. normalize_quotes text = text \<and> json_loads text = Inr v
        \<and> parse_json_block text = Inr v' \<and> v \<noteq> v'\<close>
    by blast
  with norm strict stripped tolerant show ?thesis by blast
qed

text \<open>
  C5. \<open>parse_json_block\<close> decodes the exact string
  \<open>{"movies": [{"title": "X",}], "songs": []}\<close> to
  \<open>{movies: [{title: "X"}], songs: []}\<close>: a comma that is followed, after optional
  whitespace, by a closing \<open>}\<close> or \<open>]\<close> is removed before the strict decoding.
\<close>

theorem trailing_comma_stripped:
  \<open>parse_json_block (ustr ''{"movies": [{"title": "X",}], "songs": []}'')
     = Inr (PDict [(ustr ''movies'', PList [PDict [(ustr ''title'', PStr (ustr ''X''))]]),
                   (ustr ''songs'', PList [])])
   \<and> json_candidate (ustr ''{"movies": [{"title": "X",}], "songs": []}'')
       = ustr ''{"movies": [{"title": "X"}], "songs": []}''
   \<and> (\<forall>ws c rest. list_all is_space ws \<and> (c = ch CHR ''}'' \<or> c = ch CHR '']'')
         \<longrightarrow> strip_trailing_commas (ch CHR '','' # ws @ c # rest)
             = c # strip_trailing_commas rest)\<close>
proof -
  have example: \<open>parse_json_block (ustr ''{"movies": [{"title": "X",}], "songs": []}'')
     = Inr (PDict [(ustr ''movies'', PList [PDict [(ustr ''title'', PStr (ustr ''X''))]]),
                   (ustr ''songs'', PList [])])\<close>
    by (simp add: eval_defs)
  have candidate: \<open>json_candidate (ustr ''{"movies": [{"title": "X",}], "songs": []}'')
       = ustr ''{"movies": [{"title": "X"}], "songs": []}''\<close>
    by (simp add: eval_defs)
  have general: \<open>strip_trailing_commas (ch CHR '','' # ws @ c # rest)
             = c # strip_trailing_commas rest\<close>
    if \<open>list_all is_space ws\<close> and \<open>c = ch CHR ''}'' \<or> c = ch CHR '']''\<close> for ws c rest
  proof -
    from that(2) have \<open>\<not> is_space c\<close>
      by (auto simp: is_space_def)
    with that(1) have \<open>dropWhile is_space (ws @ c # rest) = c # rest\<close>
      by (induction ws) simp_all
    with that(2) show ?thesis by auto
  qed
  from example candidate general show ?thesis by blast
qed

theorem trailing_comma_stripped_witness:
  \<open>list_all is_space [ch CHR '' '', 0x0A]
   \<and> strip_trailing_commas (ch CHR '','' # [ch CHR '' '', 0x0A] @ ch CHR '']'' # ustr ''}'')
       = ustr '']}''\<close>
proof -
  have spaces: \<open>list_all is_space [ch CHR '' '', 0x0A]\<close>
    by (simp add: is_space_def)
  from trailing_comma_stripped
  have general: \<open>\<forall>ws c rest. list_all is_space ws \<and> (c = ch CHR ''}'' \<or> c = ch CHR '']'')
         \<longrightarrow> strip_trailing_commas (ch CHR '','' # ws @ c # rest)
             = c # strip_trailing_commas rest\<close>
    by (elim conjE)
  have \<open>strip_trailing_commas (ch CHR '','' # [ch CHR '' '', 0x0A] @ ch CHR '']'' # ustr ''}'')
       = ch CHR '']'' # strip_trailing_commas (ustr ''}'')\<close>
    using general [rule_format, of \<open>[ch CHR '' '', 0x0A]\<close> \<open>ch CHR '']''\<close> \<open>ustr ''}''\<close>] spaces
    by blast
  moreover have \<open>ch CHR '']'' # strip_trailing_commas (ustr ''}'') = ustr '']}''\<close>
    by (simp add: ustr_def)
  ultimately show ?thesis
    using spaces by simp
qed

subsection \<open>The response extractor\<close>






subsection \<open>The metadata lookup\<close>

text \<open>
  C9. \<open>omdb_lookup\<close> never raises. Without a configured credential it returns
  all-absent at once and requests nothing; with one, it returns all-absent when the
  request or the decoding of its payload raises (network error, timeout, malformed
  payload) and when the payload is not a success response of the provider.
\<close>

theorem omdb_lookup_never_raises:
  "(\<exists>found tr'. omdb_lookup e tr title year = (Inr found, tr'))
   \<and> (OMDB_API_KEY e = None \<or> OMDB_API_KEY e = Some []
        \<longrightarrow> omdb_lookup e tr title year = (Inr all_absent, tr))
   \<and> (OMDB_API_KEY e = Some key \<and> key \<noteq> []
        \<and> omdb_get e tr (omdb_params key title year) = Inl ex
        \<longrightarrow> omdb_lookup e tr title year
            = (Inr all_absent, tr @ [OmdbGet (omdb_params key title year)]))
   \<and> (OMDB_API_KEY e = Some key \<and> key \<noteq> []
        \<and> omdb_get e tr (omdb_params key title year) = Inr data
        \<and> \<not> provider_success data
        \<longrightarrow> omdb_lookup e tr title year
            = (Inr all_absent, tr @ [OmdbGet (omdb_params key title year)]))"
proof -
  have total: "\<exists>found tr'. omdb_lookup e tr title year = (Inr found, tr')"
    by (auto simp: omdb_lookup_def all_absent_def split: option.splits prod.splits sum.splits)
  have no_key: "omdb_lookup e tr title year = (Inr all_absent, tr)"
    if "OMDB_API_KEY e = None \<or> OMDB_API_KEY e = Some []"
    using that by (auto simp: omdb_lookup_def)
  have raised: "omdb_lookup e tr title year
            = (Inr all_absent, tr @ [OmdbGet (omdb_params key title year)])"
    if "OMDB_API_KEY e = Some key" "key \<noteq> []"
      "omdb_get e tr (omdb_params key title year) = Inl ex"
    using that by (simp add: omdb_lookup_def omdb_request_def)
  have not_success: "omdb_lookup e tr title year
            = (Inr all_absent, tr @ [OmdbGet (omdb_params key title year)])"
    if "OMDB_API_KEY e = Some key" "key \<noteq> []"
      "omdb_get e tr (omdb_params key title year) = Inr data" "\<not> provider_success data"
    using that
    by (auto simp: omdb_lookup_def omdb_request_def provider_success_def dict_get_def
        split: pyval.splits option.splits)
  from total no_key raised not_success show ?thesis by blast
qed

theorem omdb_lookup_never_raises_witness:
  "omdb_lookup (env_of None (Inl timeout_error) (Inl timeout_error)) []
       (PStr (ustr ''X'')) PNone
     = (Inr all_absent, [])
   \<and> omdb_lookup (env_of (Some (ustr ''k'')) (Inl timeout_error) (Inl timeout_error)) []
       (PStr (ustr ''X'')) PNone
     = (Inr all_absent, [OmdbGet [(ustr ''t'', PStr (ustr ''X'')), (ustr ''apikey'', PStr (ustr ''k''))]])
   \<and> \<not> provider_success (PDict [(ustr ''Response'', PStr (ustr ''False''))])
   \<and> omdb_lookup (env_of (Some (ustr ''k'')) (Inl timeout_error)
          (Inr (PDict [(ustr ''Response'', PStr (ustr ''False''))]))) []
       (PStr (ustr ''X'')) PNone
     = (Inr all_absent, [OmdbGet [(ustr ''t'', PStr (ustr ''X'')), (ustr ''apikey'', PStr (ustr ''k''))]])"
proof -
  let ?e0 = "env_of None (Inl timeout_error) (Inl timeout_error)"
  let ?e1 = "env_of (Some (ustr ''k'')) (Inl timeout_error) (Inl timeout_error)"
  let ?data = "PDict [(ustr ''Response'', PStr (ustr ''False''))]"
  let ?e2 = "env_of (Some (ustr ''k'')) (Inl timeout_error) (Inr ?data)"
  let ?t = "PStr (ustr ''X'')"
  have params: "omdb_params (ustr ''k'') ?t PNone
      = [(ustr ''t'', ?t), (ustr ''apikey'', PStr (ustr ''k''))]"
    by (simp add: omdb_params_def)
  have h0: "OMDB_API_KEY ?e0 = None \<or> OMDB_API_KEY ?e0 = Some []"
    by (simp add: env_of_def)
  have h1: "OMDB_API_KEY ?e1 = Some (ustr ''k'') \<and> ustr ''k'' \<noteq> []
      \<and> omdb_get ?e1 [] (omdb_params (ustr ''k'') ?t PNone) = Inl timeout_error"
    by (simp add: env_of_def ustr_def)
  have ns: "\<not> provider_success ?data"
    by (simp add: provider_success_def ustr_def)
  have h2: "OMDB_API_KEY ?e2 = Some (ustr ''k'') \<and> ustr ''k'' \<noteq> []
      \<and> omdb_get ?e2 [] (omdb_params (ustr ''k'') ?t PNone) = Inr ?data"
    by (simp add: env_of_def ustr_def)
  from h0 omdb_lookup_never_raises [of ?e0 "[]" ?t PNone]
  have c0: "omdb_lookup ?e0 [] ?t PNone = (Inr all_absent, [])"
    by blast
  from h1 omdb_lookup_never_raises [of ?e1 "[]" ?t PNone "ustr ''k''" timeout_error]
  have c1: "omdb_lookup ?e1 [] ?t PNone
      = (Inr all_absent, [] @ [OmdbGet (omdb_params (ustr ''k'') ?t PNone)])"
    by blast
  from h2 ns omdb_lookup_never_raises [of ?e2 "[]" ?t PNone "ustr ''k''" _ ?data]
  have c2: "omdb_lookup ?e2 [] ?t PNone
      = (Inr all_absent, [] @ [OmdbGet (omdb_params (ustr ''k'') ?t PNone)])"
    by blast
  from c0 c1 c2 ns show ?thesis
    unfolding params by simp
qed

subsection \<open>The endpoint\<close>

text \<open>
  C8. A request whose mood is absent or empty is answered with status 400 and the body
  \<open>{"error": "Mood is required"}\<close>, and neither the generation API nor the metadata
  provider is called.
\<close>

theorem mood_required:
  "(request_json = PDict d
      \<and> (map_of d (ustr ''mood'') = None \<or> map_of d (ustr ''mood'') = Some (PStr []))
      \<longrightarrow> recommend e request_json
          = (HttpResponse 400 (PDict [(ustr ''error'', PStr (ustr ''Mood is required''))]), []))
   \<and> recommend e (PDict [(ustr ''mood'', PStr [])])
       = (HttpResponse 400 (PDict [(ustr ''error'', PStr (ustr ''Mood is required''))]), [])
   \<and> recommend e (PDict [])
       = (HttpResponse 400 (PDict [(ustr ''error'', PStr (ustr ''Mood is required''))]), [])"
proof -
  have general: "recommend e (PDict d')
          = (HttpResponse 400 (PDict [(ustr ''error'', PStr (ustr ''Mood is required''))]), [])"
    if "map_of d' (ustr ''mood'') = None \<or> map_of d' (ustr ''mood'') = Some (PStr [])" for d'
    using that by (auto simp: recommend_def py_or_def dict_get_def)
  have empty: "recommend e (PDict [(ustr ''mood'', PStr [])])
       = (HttpResponse 400 (PDict [(ustr ''error'', PStr (ustr ''Mood is required''))]), [])"
    by (rule general) simp
  have absent: "recommend e (PDict [])
       = (HttpResponse 400 (PDict [(ustr ''error'', PStr (ustr ''Mood is required''))]), [])"
    by (rule general) simp
  from general empty absent show ?thesis by blast
qed

theorem mood_required_witness:
  "map_of [(ustr ''genre'', PStr (ustr ''noir''))] (ustr ''mood'') = None
   \<and> recommend (env_of None (Inl timeout_error) (Inl timeout_error))
        (PDict [(ustr ''genre'', PStr (ustr ''noir''))])
       = (HttpResponse 400 (PDict [(ustr ''error'', PStr (ustr ''Mood is required''))]), [])"
proof -
  have h: "map_of [(ustr ''genre'', PStr (ustr ''noir''))] (ustr ''mood'') = None"
    by (simp add: ustr_def)
  with mood_required [of "PDict [(ustr ''genre'', PStr (ustr ''noir''))]"
      "[(ustr ''genre'', PStr (ustr ''noir''))]"
      "env_of None (Inl timeout_error) (Inl timeout_error)"]
  show ?thesis by blast
qed

text \<open>
  When the call of the generation API succeeds and the membership test of line 125
  finds no \<open>movies\<close> in the parsed structure (a dict, a list or a string without
  it), the answer has status 200 and the body
  \<open>{"error": "No movie data returned", "raw": <extracted text>}\<close>; so it is in
  particular when the parsing fell back to \<open>{"raw_text": ...}\<close>.
\<close>

lemma no_movie_data_soft_fail:
  "(request_json = PDict d \<and> map_of d (ustr ''mood'') = Some mood \<and> truthy mood
      \<and> responses_create e [] (build_prompt (format_value e mood)) = Inr response
      \<and> extract_text_from_response response = Inr text
      \<and> parse_json_block_value text = Inr parsed
      \<and> py_contains parsed (ustr ''movies'') = Inr False
      \<longrightarrow> recommend e request_json
          = (HttpResponse 200
               (PDict [(ustr ''error'', PStr (ustr ''No movie data returned'')),
                       (ustr ''raw'', text)]),
             [ResponsesCreate (build_prompt (format_value e mood))]))
   \<and> (request_json = PDict d \<and> map_of d (ustr ''mood'') = Some mood \<and> truthy mood
      \<and> responses_create e [] (build_prompt (format_value e mood)) = Inr response
      \<and> extract_text_from_response response = Inr (PStr t)
      \<and> json_loads (json_candidate (normalize_quotes t)) = Inl ex
      \<longrightarrow> recommend e request_json
          = (HttpResponse 200
               (PDict [(ustr ''error'', PStr (ustr ''No movie data returned'')),
                       (ustr ''raw'', PStr t)]),
             [ResponsesCreate (build_prompt (format_value e mood))]))"
proof -
  have soft: "recommend e request_json
          = (HttpResponse 200
               (PDict [(ustr ''error'', PStr (ustr ''No movie data returned'')),
                       (ustr ''raw'', text')]),
             [ResponsesCreate (build_prompt (format_value e mood))])"
    if "request_json = PDict d" "map_of d (ustr ''mood'') = Some mood" "truthy mood"
      "responses_create e [] (build_prompt (format_value e mood)) = Inr response"
      "extract_text_from_response response = Inr text'"
      "parse_json_block_value text' = Inr parsed'"
      "py_contains parsed' (ustr ''movies'') = Inr False" for text' parsed'
  proof -
    have "process_response e [ResponsesCreate (build_prompt (format_value e mood))] response
        = (Inr (HttpResponse 200
               (PDict [(ustr ''error'', PStr (ustr ''No movie data returned'')),
                       (ustr ''raw'', text')])),
           [ResponsesCreate (build_prompt (format_value e mood))])"
      using that(5-7) by (simp add: process_response_def)
    with that(1-4) show ?thesis
      by (auto simp: recommend_def py_or_def dict_get_def)
  qed
  have fallback: "parse_json_block_value (PStr t)
        = Inr (PDict [(ustr ''raw_text'', PStr (normalize_quotes t))])
      \<and> py_contains (PDict [(ustr ''raw_text'', PStr (normalize_quotes t))]) (ustr ''movies'')
        = Inr False"
    if "json_loads (json_candidate (normalize_quotes t)) = Inl ex"
    using that by (simp add: parse_json_block_value_def parse_json_block_def ustr_def)
  from soft fallback show ?thesis by blast
qed

lemma no_movie_data_soft_fail_examples:
  "recommend (env_of None (Inr (reply (ustr ''no json here''))) (Inl timeout_error))
       (PDict [(ustr ''mood'', PStr (ustr ''happy''))])
     = (HttpResponse 200
          (PDict [(ustr ''error'', PStr (ustr ''No movie data returned'')),
                  (ustr ''raw'', PStr (ustr ''no json here''))]),
        [ResponsesCreate (build_prompt (ustr ''happy''))])
   \<and> py_contains (PList [PInt 1]) (ustr ''movies'') = Inr False
   \<and> recommend (env_of None (Inr (reply (ustr ''[1]''))) (Inl timeout_error))
       (PDict [(ustr ''mood'', PStr (ustr ''happy''))])
     = (HttpResponse 200
          (PDict [(ustr ''error'', PStr (ustr ''No movie data returned'')),
                  (ustr ''raw'', PStr (ustr ''[1]''))]),
        [ResponsesCreate (build_prompt (ustr ''happy''))])"
proof -
  let ?req = "PDict [(ustr ''mood'', PStr (ustr ''happy''))]"
  let ?d = "[(ustr ''mood'', PStr (ustr ''happy''))]"
  let ?mood = "PStr (ustr ''happy'')"
  let ?e1 = "env_of None (Inr (reply (ustr ''no json here''))) (Inl timeout_error)"
  let ?e2 = "env_of None (Inr (reply (ustr ''[1]''))) (Inl timeout_error)"
  have mood: "map_of ?d (ustr ''mood'') = Some ?mood \<and> truthy ?mood"
    by (simp add: ustr_def)
  have fmt: "format_value e ?mood = ustr ''happy''" for e
    by (simp add: format_value_def)
  have gen1: "responses_create ?e1 [] (build_prompt (format_value ?e1 ?mood))
      = Inr (reply (ustr ''no json here''))"
    by (simp add: env_of_def)
  have gen2: "responses_create ?e2 [] (build_prompt (format_value ?e2 ?mood))
      = Inr (reply (ustr ''[1]''))"
    by (simp add: env_of_def)
  have text1: "extract_text_from_response (reply (ustr ''no json here''))
      = Inr (PStr (ustr ''no json here''))"
    by (simp add: extract_text_from_response_def reply_def ustr_def)
  have text2: "extract_text_from_response (reply (ustr ''[1]'')) = Inr (PStr (ustr ''[1]''))"
    by (simp add: extract_text_from_response_def reply_def ustr_def)
  have bad: "json_loads (json_candidate (normalize_quotes (ustr ''no json here'')))
      = Inl expecting_value"
    by (simp add: eval_defs)
  have parsed2: "parse_json_block_value (PStr (ustr ''[1]'')) = Inr (PList [PInt 1])"
    by (simp add: parse_json_block_value_def eval_defs)
  have lacks: "py_contains (PList [PInt 1]) (ustr ''movies'') = Inr False"
    by simp
  from mood gen1 text1 bad
    no_movie_data_soft_fail [of ?req ?d ?mood ?e1 "reply (ustr ''no json here'')"
      _ _ "ustr ''no json here''" expecting_value]
  have c1: "recommend ?e1 ?req
     = (HttpResponse 200
          (PDict [(ustr ''error'', PStr (ustr ''No movie data returned'')),
                  (ustr ''raw'', PStr (ustr ''no json here''))]),
        [ResponsesCreate (build_prompt (format_value ?e1 ?mood))])"
    by blast
  from mood gen2 text2 parsed2 lacks
    no_movie_data_soft_fail [of ?req ?d ?mood ?e2 "reply (ustr ''[1]'')"
      "PStr (ustr ''[1]'')" "PList [PInt 1]"]
  have c2: "recommend ?e2 ?req
     = (HttpResponse 200
          (PDict [(ustr ''error'', PStr (ustr ''No movie data returned'')),
                  (ustr ''raw'', PStr (ustr ''[1]''))]),
        [ResponsesCreate (build_prompt (format_value ?e2 ?mood))])"
    by blast
  from c1 c2 lacks show ?thesis
    unfolding fmt by simp
qed

subsection \<open>The success path\<close>

lemma dict_set_keys: "map_of d k = Some v0 \<Longrightarrow> map fst (dict_set k v d) = map fst d"
  by (induction d) (auto split: if_splits)

lemma dict_set_other: "k' \<noteq> k \<Longrightarrow> map_of (dict_set k v d) k' = map_of d k'"
  by (induction d) auto

lemma dict_set_same: "map_of (dict_set k v d) k = Some v"
  by (induction d) auto

lemma omdb_lookup_returns: "\<exists>found tr'. omdb_lookup e tr title year = (Inr found, tr')"
  by (auto simp: omdb_lookup_def all_absent_def split: option.splits prod.splits sum.splits)

lemma enrich_movie_inversion:
  "enrich_movie e tr m = (Inr entry, tr') \<Longrightarrow> enrichment_of e m entry"
  by (cases m)
     (fastforce simp: enrich_movie_def enrichment_of_def title_of_def year_of_def
        split: sum.splits prod.splits)+

lemma enrich_loop_inversion:
  "enrich_loop e tr acc ms = (Inr result, tr')
    \<Longrightarrow> \<exists>out. result = acc @ out \<and> list_all2 (enrichment_of e) ms out"
proof (induction ms arbitrary: tr acc)
  case Nil
  then show ?case by simp
next
  case (Cons m ms)
  from Cons.prems obtain entry tr1 where
    step: "enrich_movie e tr m = (Inr entry, tr1)"
    and rest: "enrich_loop e tr1 (acc @ [entry]) ms = (Inr result, tr')"
    by (auto split: sum.splits prod.splits)
  from Cons.IH [OF rest] obtain out where
    out: "result = (acc @ [entry]) @ out" "list_all2 (enrichment_of e) ms out"
    by blast
  from step have "enrichment_of e m entry"
    by (rule enrich_movie_inversion)
  with out have "result = acc @ (entry # out) \<and> list_all2 (enrichment_of e) (m # ms) (entry # out)"
    by simp
  then show ?case by blast
qed

lemma process_response_inversion:
  assumes "process_response e tr response
      = (Inr (HttpResponse 200 (PDict [(ustr ''recommendations'', body)])), tr')"
  shows "\<exists>text parsed movies ms enriched.
      extract_text_from_response response = Inr (PStr text)
      \<and> parse_json_block text = Inr (PDict parsed)
      \<and> map_of parsed (ustr ''movies'') = Some movies
      \<and> py_iter movies = Inr ms
      \<and> list_all2 (enrichment_of e) ms enriched
      \<and> body = PDict (dict_set (ustr ''movies'') (PList enriched) parsed)"
proof -
  from assms obtain raw parsed movies ms enriched parsed' where
    e1: "extract_text_from_response response = Inr raw"
    and e2: "parse_json_block_value raw = Inr parsed"
    and e3: "py_contains parsed (ustr ''movies'') = Inr True"
    and e4: "py_getitem parsed (ustr ''movies'') = Inr movies"
    and e5: "py_iter movies = Inr ms"
    and e6: "enrich_loop e tr [] ms = (Inr enriched, tr')"
    and e7: "py_setitem parsed (ustr ''movies'') (PList enriched) = Inr parsed'"
    and e8: "body = parsed'"
    by (auto simp: process_response_def ustr_def split: sum.splits bool.splits prod.splits)
  from e2 obtain t where t: "raw = PStr t" "parse_json_block t = Inr parsed"
    by (cases raw) (auto simp: parse_json_block_value_def)
  from e4 obtain d where d: "parsed = PDict d" "map_of d (ustr ''movies'') = Some movies"
    by (cases parsed) (auto split: option.splits)
  from e6 obtain out where "enriched = [] @ out" "list_all2 (enrichment_of e) ms out"
    by (blast dest: enrich_loop_inversion)
  then have en: "list_all2 (enrichment_of e) ms enriched"
    by simp
  from e7 d e8 have "body = PDict (dict_set (ustr ''movies'') (PList enriched) d)"
    by simp
  with e1 t d e5 en show ?thesis by blast
qed


lemma recommend_success_inversion:
  assumes "recommend e request_json
      = (HttpResponse 200 (PDict [(ustr ''recommendations'', body)]), tr)"
  shows "\<exists>prompt response text parsed movies ms enriched.
      responses_create e [] prompt = Inr response
      \<and> extract_text_from_response response = Inr (PStr text)
      \<and> parse_json_block text = Inr (PDict parsed)
      \<and> map_of parsed (ustr ''movies'') = Some movies
      \<and> py_iter movies = Inr ms
      \<and> list_all2 (enrichment_of e) ms enriched
      \<and> body = PDict (dict_set (ustr ''movies'') (PList enriched) parsed)"
proof -
  from assms obtain prompt response tr0 where
    r1: "responses_create e [] prompt = Inr response"
    and r2: "process_response e tr0 response
      = (Inr (HttpResponse 200 (PDict [(ustr ''recommendations'', body)])), tr)"
    by (auto simp: recommend_def Let_def split: sum.splits if_splits prod.splits)
  from process_response_inversion [OF r2] r1 show ?thesis by blast
qed

lemma list_all2_right: "list_all2 P xs ys \<Longrightarrow> y \<in> set ys \<Longrightarrow> \<exists>x \<in> set xs. P x y"
  by (induction rule: list_all2_induct) auto

lemma omdb_lookup_poster:
  assumes "posters_are_text e" "omdb_lookup e tr title year = (Inr (poster, y, g, p), tr')"
  shows "poster = PNone \<or> (\<exists>url. poster = PStr url)"
  using assms
  by (auto simp: omdb_lookup_def omdb_request_def all_absent_def posters_are_text_def
      dict_get_def Let_def split: option.splits if_splits sum.splits pyval.splits prod.splits)

lemma enriched_movie_poster_url:
  "py_get (enriched_movie title year why (poster, y, g, p)) (ustr ''poster_url'') PNone
     = Inr (py_or poster (PStr PLACEHOLDER))"
  by (simp add: enriched_movie_def dict_get_def ustr_def)

lemma enrichment_poster:
  assumes "posters_are_text e" "enrichment_of e m entry"
  shows "poster_url_nonempty entry"
proof -
  from assms(2) obtain d tr0 poster y g p tr1 where
    lookup: "omdb_lookup e tr0 (title_of d) (year_of d) = (Inr (poster, y, g, p), tr1)"
    and entry: "entry = enriched_movie (title_of d) (year_of d)
        (dict_get d (ustr ''why'') (PStr [])) (poster, y, g, p)"
    by (auto simp: enrichment_of_def)
  from omdb_lookup_poster [OF assms(1) lookup]
  have "poster = PNone \<or> (\<exists>url. poster = PStr url)" .
  then show ?thesis
    unfolding entry
    by (auto simp: poster_url_nonempty_def enriched_movie_def py_or_def PLACEHOLDER_def ustr_def)
qed

lemma omdb_lookup_poster_source:
  assumes "omdb_lookup e tr title year = (Inr (poster, y, g, p), tr')"
  shows "poster = PNone
    \<or> (\<exists>params d. omdb_get e tr params = Inr (PDict d)
          \<and> map_of d (ustr ''Response'') = Some (PStr (ustr ''True''))
          \<and> map_of d (ustr ''Poster'') = Some poster
          \<and> poster \<noteq> PStr (ustr ''N/A''))"
  using assms
  by (auto simp: omdb_lookup_def omdb_request_def all_absent_def dict_get_def Let_def
      split: option.splits if_splits sum.splits pyval.splits prod.splits)

lemma poster_url_source_enriched:
  "poster_url_source e (enriched_movie title year why (poster, y, g, p))
     = (truthy (py_or poster (PStr PLACEHOLDER))
        \<and> (py_or poster (PStr PLACEHOLDER) = PStr PLACEHOLDER
           \<or> (\<exists>tr params d.
                 omdb_get e tr params = Inr (PDict d)
                 \<and> map_of d (ustr ''Response'') = Some (PStr (ustr ''True''))
                 \<and> map_of d (ustr ''Poster'') = Some (py_or poster (PStr PLACEHOLDER))
                 \<and> py_or poster (PStr PLACEHOLDER) \<noteq> PStr (ustr ''N/A''))))"
  by (simp add: poster_url_source_def enriched_movie_def ustr_def)

lemma enrichment_poster_source:
  assumes "enrichment_of e m entry"
  shows "poster_url_source e entry"
proof -
  from assms obtain d tr0 poster y g p tr1 where
    lookup: "omdb_lookup e tr0 (title_of d) (year_of d) = (Inr (poster, y, g, p), tr1)"
    and entry: "entry = enriched_movie (title_of d) (year_of d)
        (dict_get d (ustr ''why'') (PStr [])) (poster, y, g, p)"
    by (auto simp: enrichment_of_def)
  have placeholder: "truthy (PStr PLACEHOLDER)"
    by (simp add: PLACEHOLDER_def ustr_def)
  show ?thesis
  proof (cases "truthy poster")
    case True
    then have "poster \<noteq> PNone"
      by auto
    with omdb_lookup_poster_source [OF lookup] obtain params d' where
      "omdb_get e tr0 params = Inr (PDict d')"
      "map_of d' (ustr ''Response'') = Some (PStr (ustr ''True''))"
      "map_of d' (ustr ''Poster'') = Some poster"
      "poster \<noteq> PStr (ustr ''N/A'')"
      by blast
    moreover from True have "py_or poster (PStr PLACEHOLDER) = poster"
      by (simp add: py_or_def)
    ultimately show ?thesis
      unfolding entry poster_url_source_enriched using True by auto
  next
    case False
    then have "py_or poster (PStr PLACEHOLDER) = PStr PLACEHOLDER"
      by (simp add: py_or_def)
    with placeholder show ?thesis
      unfolding entry poster_url_source_enriched by simp
  qed
qed

lemma enrich_movie_lookup:
  assumes "omdb_lookup e tr (title_of m) (year_of m) = (Inr found, tr')"
  shows "enrich_movie e tr (PDict m)
      = (Inr (enriched_movie (title_of m) (year_of m) (dict_get m (ustr ''why'') (PStr [])) found),
         tr')"
  using assms by (simp add: enrich_movie_def title_of_def year_of_def)

lemma omdb_lookup_success:
  assumes "OMDB_API_KEY e = Some key" "key \<noteq> []"
    "omdb_get e tr (omdb_params key title year) = Inr (PDict d)"
    "map_of d (ustr ''Response'') = Some (PStr (ustr ''True''))"
  shows "omdb_lookup e tr title year
      = (Inr (if dict_get d (ustr ''Poster'') PNone \<noteq> PStr (ustr ''N/A'')
              then dict_get d (ustr ''Poster'') PNone else PNone,
              dict_get d (ustr ''Year'') PNone,
              dict_get d (ustr ''Genre'') PNone,
              dict_get d (ustr ''Plot'') PNone),
         tr @ [OmdbGet (omdb_params key title year)])"
  using assms by (simp add: omdb_lookup_def omdb_request_def dict_get_def)


lemmas request_defs =
  recommend_def process_response_def env_of_def reply_def extract_text_from_response_def
  parse_json_block_value_def format_value_def py_or_def dict_get_def enrich_movie_def
  omdb_lookup_def omdb_request_def omdb_params_def enriched_movie_def all_absent_def

text \<open>
  C10. On the success path the body is \<open>{"recommendations": parsed}\<close> where only the
  value of \<open>movies\<close> in the parsed structure has been replaced, by the enriched
  sequence, which has one entry per movie suggestion in the same order; the keys of the
  parsed structure and their order are kept, and the value of \<open>songs\<close> and of every
  other key is unchanged.
\<close>

theorem movies_replaced_rest_untouched:
  "recommend e request_json = (HttpResponse 200 (PDict [(ustr ''recommendations'', body)]), tr)
   \<longrightarrow> (\<exists>prompt response text parsed movies ms enriched.
          responses_create e [] prompt = Inr response
          \<and> extract_text_from_response response = Inr (PStr text)
          \<and> parse_json_block text = Inr (PDict parsed)
          \<and> map_of parsed (ustr ''movies'') = Some movies
          \<and> py_iter movies = Inr ms
          \<and> list_all2 (enrichment_of e) ms enriched
          \<and> length enriched = length ms
          \<and> body = PDict (dict_set (ustr ''movies'') (PList enriched) parsed)
          \<and> map_of (dict_set (ustr ''movies'') (PList enriched) parsed) (ustr ''movies'')
              = Some (PList enriched)
          \<and> map fst (dict_set (ustr ''movies'') (PList enriched) parsed) = map fst parsed
          \<and> map_of (dict_set (ustr ''movies'') (PList enriched) parsed) (ustr ''songs'')
              = map_of parsed (ustr ''songs'')
          \<and> (\<forall>k. k \<noteq> ustr ''movies''
                \<longrightarrow> map_of (dict_set (ustr ''movies'') (PList enriched) parsed) k
                    = map_of parsed k))"
proof
  assume "recommend e request_json
      = (HttpResponse 200 (PDict [(ustr ''recommendations'', body)]), tr)"
  from recommend_success_inversion [OF this]
  obtain prompt response raw parsed movies ms enriched where
    s1: "responses_create e [] prompt = Inr response"
    and s2: "extract_text_from_response response = Inr (PStr raw)"
    and s3: "parse_json_block raw = Inr (PDict parsed)"
    and s4: "map_of parsed (ustr ''movies'') = Some movies"
    and s5: "py_iter movies = Inr ms"
    and s6: "list_all2 (enrichment_of e) ms enriched"
    and s7: "body = PDict (dict_set (ustr ''movies'') (PList enriched) parsed)"
    by blast
  from s6 have s8: "length enriched = length ms"
    by (simp add: list_all2_lengthD)
  have s9: "map_of (dict_set (ustr ''movies'') (PList enriched) parsed) (ustr ''movies'')
      = Some (PList enriched)"
    by (rule dict_set_same)
  from s4 have s10: "map fst (dict_set (ustr ''movies'') (PList enriched) parsed) = map fst parsed"
    by (rule dict_set_keys)
  have s11: "\<forall>k. k \<noteq> ustr ''movies''
      \<longrightarrow> map_of (dict_set (ustr ''movies'') (PList enriched) parsed) k = map_of parsed k"
    by (simp add: dict_set_other)
  have "ustr ''songs'' \<noteq> ustr ''movies''"
    by (simp add: ustr_def)
  with s11 have s12: "map_of (dict_set (ustr ''movies'') (PList enriched) parsed) (ustr ''songs'')
      = map_of parsed (ustr ''songs'')"
    by blast
  from s1 s2 s3 s4 s5 s6 s7 s8 s9 s10 s11 s12
  show "\<exists>prompt response text parsed movies ms enriched.
          responses_create e [] prompt = Inr response
          \<and> extract_text_from_response response = Inr (PStr text)
          \<and> parse_json_block text = Inr (PDict parsed)
          \<and> map_of parsed (ustr ''movies'') = Some movies
          \<and> py_iter movies = Inr ms
          \<and> list_all2 (enrichment_of e) ms enriched
          \<and> length enriched = length ms
          \<and> body = PDict (dict_set (ustr ''movies'') (PList enriched) parsed)
          \<and> map_of (dict_set (ustr ''movies'') (PList enriched) parsed) (ustr ''movies'')
              = Some (PList enriched)
          \<and> map fst (dict_set (ustr ''movies'') (PList enriched) parsed) = map fst parsed
          \<and> map_of (dict_set (ustr ''movies'') (PList enriched) parsed) (ustr ''songs'')
              = map_of parsed (ustr ''songs'')
          \<and> (\<forall>k. k \<noteq> ustr ''movies''
                \<longrightarrow> map_of (dict_set (ustr ''movies'') (PList enriched) parsed) k
                    = map_of parsed k)"
    by blast
qed

theorem movies_replaced_rest_untouched_witness:
  \<open>recommend (env_of (Some (ustr ''k''))
        (Inr (reply (ustr ''{"movies": [{"title": "X"}], "songs": ["S"], "note": 1}'')))
        (Inr poster_payload))
      (PDict [(ustr ''mood'', PStr (ustr ''happy''))])
    = (HttpResponse 200
         (PDict [(ustr ''recommendations'',
            PDict [(ustr ''movies'',
                     PList [PDict [(ustr ''title'', PStr (ustr ''X'')),
                                   (ustr ''year'', PStr (ustr ''2000'')),
                                   (ustr ''why'', PStr []),
                                   (ustr ''poster_url'', PStr (ustr ''https://img.example/x.jpg'')),
                                   (ustr ''genre'', PNone),
                                   (ustr ''plot'', PNone)]]),
                   (ustr ''songs'', PList [PStr (ustr ''S'')]),
                   (ustr ''note'', PInt 1)])]),
       [ResponsesCreate (build_prompt (ustr ''happy'')),
        OmdbGet [(ustr ''t'', PStr (ustr ''X'')), (ustr ''apikey'', PStr (ustr ''k''))]])
   \<and> (\<exists>text parsed enriched.
         parse_json_block text = Inr (PDict parsed)
         \<and> PDict [(ustr ''movies'',
                     PList [PDict [(ustr ''title'', PStr (ustr ''X'')),
                                   (ustr ''year'', PStr (ustr ''2000'')),
                                   (ustr ''why'', PStr []),
                                   (ustr ''poster_url'', PStr (ustr ''https://img.example/x.jpg'')),
                                   (ustr ''genre'', PNone),
                                   (ustr ''plot'', PNone)]]),
                   (ustr ''songs'', PList [PStr (ustr ''S'')]),
                   (ustr ''note'', PInt 1)]
             = PDict (dict_set (ustr ''movies'') (PList enriched) parsed)
         \<and> map_of parsed (ustr ''songs'') = Some (PList [PStr (ustr ''S'')]))\<close>
proof -
  let ?e = \<open>env_of (Some (ustr ''k''))
        (Inr (reply (ustr ''{"movies": [{"title": "X"}], "songs": ["S"], "note": 1}'')))
        (Inr poster_payload)\<close>
  let ?req = "PDict [(ustr ''mood'', PStr (ustr ''happy''))]"
  let ?body = "PDict [(ustr ''movies'',
                     PList [PDict [(ustr ''title'', PStr (ustr ''X'')),
                                   (ustr ''year'', PStr (ustr ''2000'')),
                                   (ustr ''why'', PStr []),
                                   (ustr ''poster_url'', PStr (ustr ''https://img.example/x.jpg'')),
                                   (ustr ''genre'', PNone),
                                   (ustr ''plot'', PNone)]]),
                   (ustr ''songs'', PList [PStr (ustr ''S'')]),
                   (ustr ''note'', PInt 1)]"
  let ?tr = "[ResponsesCreate (build_prompt (ustr ''happy'')),
        OmdbGet [(ustr ''t'', PStr (ustr ''X'')), (ustr ''apikey'', PStr (ustr ''k''))]]"
  have run: "recommend ?e ?req = (HttpResponse 200 (PDict [(ustr ''recommendations'', ?body)]), ?tr)"
    by (simp add: request_defs poster_payload_def eval_defs)
  from run movies_replaced_rest_untouched [of ?e ?req ?body ?tr]
  obtain raw parsed enriched where
    w1: "parse_json_block raw = Inr (PDict parsed)"
    and w2: "?body = PDict (dict_set (ustr ''movies'') (PList enriched) parsed)"
    and w3: "map_of (dict_set (ustr ''movies'') (PList enriched) parsed) (ustr ''songs'')
              = map_of parsed (ustr ''songs'')"
    by blast
  from w2 have "dict_set (ustr ''movies'') (PList enriched) parsed
      = [(ustr ''movies'',
                     PList [PDict [(ustr ''title'', PStr (ustr ''X'')),
                                   (ustr ''year'', PStr (ustr ''2000'')),
                                   (ustr ''why'', PStr []),
                                   (ustr ''poster_url'', PStr (ustr ''https://img.example/x.jpg'')),
                                   (ustr ''genre'', PNone),
                                   (ustr ''plot'', PNone)]]),
                   (ustr ''songs'', PList [PStr (ustr ''S'')]),
                   (ustr ''note'', PInt 1)]"
    by simp
  with w3 have w4: "map_of parsed (ustr ''songs'') = Some (PList [PStr (ustr ''S'')])"
    by (simp add: ustr_def)
  from run w1 w2 w4 show ?thesis by blast
qed

text \<open>
  The claim that the \<open>poster_url\<close> of every enriched movie of a successful response
  is a non-empty string fails where the provider's success payload carries a
  \<open>Poster\<close> that is not a string: neither line 89 nor line 139 looks at the type of
  the value, and the number 5 comes out as the \<open>poster_url\<close> of a 200 response.
\<close>

theorem poster_url_not_a_string:
  \<open>recommend (env_of (Some (ustr ''k'')) (Inr (reply (ustr ''{"movies": [{"title": "X"}]}'')))
          (Inr numeric_poster_payload))
        (PDict [(ustr ''mood'', PStr (ustr ''happy''))])
      = (HttpResponse 200
           (PDict [(ustr ''recommendations'',
              PDict [(ustr ''movies'',
                PList [PDict [(ustr ''title'', PStr (ustr ''X'')),
                              (ustr ''year'', PNone),
                              (ustr ''why'', PStr []),
                              (ustr ''poster_url'', PInt 5),
                              (ustr ''genre'', PNone),
                              (ustr ''plot'', PNone)]])])]),
         [ResponsesCreate (build_prompt (ustr ''happy'')),
          OmdbGet [(ustr ''t'', PStr (ustr ''X'')), (ustr ''apikey'', PStr (ustr ''k''))]])
   \<and> \<not> poster_url_nonempty
        (PDict [(ustr ''title'', PStr (ustr ''X'')),
                (ustr ''year'', PNone),
                (ustr ''why'', PStr []),
                (ustr ''poster_url'', PInt 5),
                (ustr ''genre'', PNone),
                (ustr ''plot'', PNone)])\<close>
proof -
  have run: \<open>recommend (env_of (Some (ustr ''k'')) (Inr (reply (ustr ''{"movies": [{"title": "X"}]}'')))
          (Inr numeric_poster_payload))
        (PDict [(ustr ''mood'', PStr (ustr ''happy''))])
      = (HttpResponse 200
           (PDict [(ustr ''recommendations'',
              PDict [(ustr ''movies'',
                PList [PDict [(ustr ''title'', PStr (ustr ''X'')),
                              (ustr ''year'', PNone),
                              (ustr ''why'', PStr []),
                              (ustr ''poster_url'', PInt 5),
                              (ustr ''genre'', PNone),
                              (ustr ''plot'', PNone)]])])]),
         [ResponsesCreate (build_prompt (ustr ''happy'')),
          OmdbGet [(ustr ''t'', PStr (ustr ''X'')), (ustr ''apikey'', PStr (ustr ''k''))]])\<close>
    by (simp add: request_defs numeric_poster_payload_def eval_defs)
  have number: "\<not> poster_url_nonempty
        (PDict [(ustr ''title'', PStr (ustr ''X'')),
                (ustr ''year'', PNone),
                (ustr ''why'', PStr []),
                (ustr ''poster_url'', PInt 5),
                (ustr ''genre'', PNone),
                (ustr ''plot'', PNone)])"
    by (simp add: poster_url_nonempty_def ustr_def)
  from run number show ?thesis by blast
qed

text \<open>
  C7. The \<open>poster_url\<close> of every enriched movie of a successful response is never
  empty: it is a truthy value, the placeholder or the \<open>Poster\<close> of a success payload
  of the provider; and it is a non-empty string when the provider's \<open>Poster\<close> is a
  string or \<open>null\<close> wherever it is present. For one movie: it is the provider's
  \<open>Poster\<close> when the success payload has a truthy one other than the marker
  \<open>N/A\<close>, the poster URL in particular; it is the placeholder
  \<open>/static/poster-placeholder.png\<close> when the success payload has no \<open>Poster\<close>, a
  falsy one (\<open>null\<close>, the empty string) or the marker \<open>N/A\<close>, and when the lookup
  returns all-absent.
\<close>

theorem poster_url_never_falsy:
  "(recommend e request_json
          = (HttpResponse 200 (PDict [(ustr ''recommendations'', PDict p)]), tr)
      \<and> map_of p (ustr ''movies'') = Some (PList entries)
      \<longrightarrow> list_all (poster_url_source e) entries)
   \<and> (posters_are_text e
      \<and> recommend e request_json
          = (HttpResponse 200 (PDict [(ustr ''recommendations'', PDict p)]), tr)
      \<and> map_of p (ustr ''movies'') = Some (PList entries)
      \<longrightarrow> list_all poster_url_nonempty entries)
   \<and> (OMDB_API_KEY e = Some key \<and> key \<noteq> []
      \<and> omdb_get e tr0 (omdb_params key (title_of m) (year_of m)) = Inr (PDict d)
      \<and> map_of d (ustr ''Response'') = Some (PStr (ustr ''True''))
      \<and> map_of d (ustr ''Poster'') = Some v \<and> truthy v \<and> v \<noteq> PStr (ustr ''N/A'')
      \<longrightarrow> (\<exists>entry tr1. enrich_movie e tr0 (PDict m) = (Inr entry, tr1)
            \<and> py_get entry (ustr ''poster_url'') PNone = Inr v))
   \<and> (OMDB_API_KEY e = Some key \<and> key \<noteq> []
      \<and> omdb_get e tr0 (omdb_params key (title_of m) (year_of m)) = Inr (PDict d)
      \<and> map_of d (ustr ''Response'') = Some (PStr (ustr ''True''))
      \<and> (map_of d (ustr ''Poster'') = None
          \<or> map_of d (ustr ''Poster'') = Some w \<and> (\<not> truthy w \<or> w = PStr (ustr ''N/A'')))
      \<longrightarrow> (\<exists>entry tr1. enrich_movie e tr0 (PDict m) = (Inr entry, tr1)
            \<and> py_get entry (ustr ''poster_url'') PNone = Inr (PStr PLACEHOLDER)))
   \<and> (omdb_lookup e tr0 (title_of m) (year_of m) = (Inr all_absent, tr2)
      \<longrightarrow> (\<exists>entry. enrich_movie e tr0 (PDict m) = (Inr entry, tr2)
            \<and> py_get entry (ustr ''poster_url'') PNone = Inr (PStr PLACEHOLDER)))
   \<and> PLACEHOLDER = ustr ''/static/poster-placeholder.png''"
proof -
  have entries_enriched: "\<exists>ms. list_all2 (enrichment_of e) ms entries"
    if run: "recommend e request_json
          = (HttpResponse 200 (PDict [(ustr ''recommendations'', PDict p)]), tr)"
      and movies: "map_of p (ustr ''movies'') = Some (PList entries)"
  proof -
    from recommend_success_inversion [OF run]
    obtain parsed ms enriched where
      en: "list_all2 (enrichment_of e) ms enriched"
      and body: "PDict p = PDict (dict_set (ustr ''movies'') (PList enriched) parsed)"
      by blast
    from body movies have "entries = enriched"
      by (simp add: dict_set_same)
    with en show ?thesis
      by blast
  qed
  have source: "list_all (poster_url_source e) entries"
    if run: "recommend e request_json
          = (HttpResponse 200 (PDict [(ustr ''recommendations'', PDict p)]), tr)"
      and movies: "map_of p (ustr ''movies'') = Some (PList entries)"
  proof -
    from entries_enriched [OF run movies] obtain ms where
      "list_all2 (enrichment_of e) ms entries"
      by blast
    then have "\<forall>entry \<in> set entries. poster_url_source e entry"
      by (blast dest: list_all2_right enrichment_poster_source)
    then show ?thesis
      by (simp add: list_all_iff)
  qed
  have invariant: "list_all poster_url_nonempty entries"
    if typed: "posters_are_text e"
      and run: "recommend e request_json
          = (HttpResponse 200 (PDict [(ustr ''recommendations'', PDict p)]), tr)"
      and movies: "map_of p (ustr ''movies'') = Some (PList entries)"
  proof -
    from entries_enriched [OF run movies] obtain ms where
      "list_all2 (enrichment_of e) ms entries"
      by blast
    then have "\<forall>entry \<in> set entries. poster_url_nonempty entry"
      using typed by (blast dest: list_all2_right enrichment_poster)
    then show ?thesis
      by (simp add: list_all_iff)
  qed
  have found: "\<exists>entry tr1. enrich_movie e tr0 (PDict m) = (Inr entry, tr1)
            \<and> py_get entry (ustr ''poster_url'') PNone = Inr v"
    if "OMDB_API_KEY e = Some key" "key \<noteq> []"
      "omdb_get e tr0 (omdb_params key (title_of m) (year_of m)) = Inr (PDict d)"
      "map_of d (ustr ''Response'') = Some (PStr (ustr ''True''))"
      "map_of d (ustr ''Poster'') = Some v" "truthy v" "v \<noteq> PStr (ustr ''N/A'')"
  proof -
    from that(5,7) have poster: "dict_get d (ustr ''Poster'') PNone = v"
      "dict_get d (ustr ''Poster'') PNone \<noteq> PStr (ustr ''N/A'')"
      by (simp_all add: dict_get_def)
    from that(6) have "py_or v (PStr PLACEHOLDER) = v"
      by (simp add: py_or_def)
    then show ?thesis
      using enrich_movie_lookup [OF omdb_lookup_success [OF that(1-4)]] poster
      by (simp add: enriched_movie_poster_url)
  qed
  have missing: "\<exists>entry tr1. enrich_movie e tr0 (PDict m) = (Inr entry, tr1)
            \<and> py_get entry (ustr ''poster_url'') PNone = Inr (PStr PLACEHOLDER)"
    if "OMDB_API_KEY e = Some key" "key \<noteq> []"
      "omdb_get e tr0 (omdb_params key (title_of m) (year_of m)) = Inr (PDict d)"
      "map_of d (ustr ''Response'') = Some (PStr (ustr ''True''))"
      "map_of d (ustr ''Poster'') = None
        \<or> map_of d (ustr ''Poster'') = Some w \<and> (\<not> truthy w \<or> w = PStr (ustr ''N/A''))"
  proof -
    let ?poster = "if dict_get d (ustr ''Poster'') PNone \<noteq> PStr (ustr ''N/A'')
        then dict_get d (ustr ''Poster'') PNone else PNone"
    from that(5) have "\<not> truthy ?poster"
      by (auto simp: dict_get_def)
    then have "py_or ?poster (PStr PLACEHOLDER) = PStr PLACEHOLDER"
      by (simp add: py_or_def)
    then show ?thesis
      using enrich_movie_lookup [OF omdb_lookup_success [OF that(1-4)]]
      by (simp add: enriched_movie_poster_url)
  qed
  have failed: "\<exists>entry. enrich_movie e tr0 (PDict m) = (Inr entry, tr2)
            \<and> py_get entry (ustr ''poster_url'') PNone = Inr (PStr PLACEHOLDER)"
    if "omdb_lookup e tr0 (title_of m) (year_of m) = (Inr all_absent, tr2)"
    using enrich_movie_lookup [OF that]
    by (simp add: all_absent_def enriched_movie_poster_url py_or_def)
  have placeholder: "PLACEHOLDER = ustr ''/static/poster-placeholder.png''"
    by (simp add: PLACEHOLDER_def)
  from source invariant found missing failed placeholder show ?thesis by blast
qed

theorem poster_url_never_falsy_witness:
  \<open>recommend (env_of (Some (ustr ''k'')) (Inr (reply (ustr ''{"movies": [{"title": "X"}]}'')))
          (Inr poster_payload))
        (PDict [(ustr ''mood'', PStr (ustr ''happy''))])
      = (HttpResponse 200
           (PDict [(ustr ''recommendations'',
              PDict [(ustr ''movies'',
                PList [PDict [(ustr ''title'', PStr (ustr ''X'')),
                              (ustr ''year'', PStr (ustr ''2000'')),
                              (ustr ''why'', PStr []),
                              (ustr ''poster_url'', PStr (ustr ''https://img.example/x.jpg'')),
                              (ustr ''genre'', PNone),
                              (ustr ''plot'', PNone)]])])]),
         [ResponsesCreate (build_prompt (ustr ''happy'')),
          OmdbGet [(ustr ''t'', PStr (ustr ''X'')), (ustr ''apikey'', PStr (ustr ''k''))]])
   \<and> list_all
        (poster_url_source
           (env_of (Some (ustr ''k'')) (Inr (reply (ustr ''{"movies": [{"title": "X"}]}'')))
              (Inr poster_payload)))
        [PDict [(ustr ''title'', PStr (ustr ''X'')),
                (ustr ''year'', PStr (ustr ''2000'')),
                (ustr ''why'', PStr []),
                (ustr ''poster_url'', PStr (ustr ''https://img.example/x.jpg'')),
                (ustr ''genre'', PNone),
                (ustr ''plot'', PNone)]]
   \<and> posters_are_text (env_of (Some (ustr ''k'')) (Inr (reply (ustr ''{"movies": [{"title": "X"}]}'')))
        (Inr poster_payload))
   \<and> list_all poster_url_nonempty
        [PDict [(ustr ''title'', PStr (ustr ''X'')),
                (ustr ''year'', PStr (ustr ''2000'')),
                (ustr ''why'', PStr []),
                (ustr ''poster_url'', PStr (ustr ''https://img.example/x.jpg'')),
                (ustr ''genre'', PNone),
                (ustr ''plot'', PNone)]]
   \<and> (\<exists>entry tr1.
         enrich_movie (env_of (Some (ustr ''k'')) (Inl timeout_error) (Inr poster_payload)) []
             (PDict [(ustr ''title'', PStr (ustr ''X''))]) = (Inr entry, tr1)
         \<and> py_get entry (ustr ''poster_url'') PNone = Inr (PStr (ustr ''https://img.example/x.jpg'')))
   \<and> (\<exists>entry tr1.
         enrich_movie (env_of (Some (ustr ''k'')) (Inl timeout_error) (Inr numeric_poster_payload)) []
             (PDict [(ustr ''title'', PStr (ustr ''X''))]) = (Inr entry, tr1)
         \<and> py_get entry (ustr ''poster_url'') PNone = Inr (PInt 5))
   \<and> (\<exists>entry tr1.
         enrich_movie (env_of (Some (ustr ''k'')) (Inl timeout_error) (Inr no_poster_payload)) []
             (PDict [(ustr ''title'', PStr (ustr ''X''))]) = (Inr entry, tr1)
         \<and> py_get entry (ustr ''poster_url'') PNone = Inr (PStr PLACEHOLDER))
   \<and> (\<exists>entry tr1.
         enrich_movie (env_of (Some (ustr ''k'')) (Inl timeout_error) (Inr null_poster_payload)) []
             (PDict [(ustr ''title'', PStr (ustr ''X''))]) = (Inr entry, tr1)
         \<and> py_get entry (ustr ''poster_url'') PNone = Inr (PStr PLACEHOLDER))
   \<and> omdb_lookup (env_of None (Inl timeout_error) (Inl timeout_error)) []
         (title_of [(ustr ''title'', PStr (ustr ''X''))]) (year_of [(ustr ''title'', PStr (ustr ''X''))])
       = (Inr all_absent, [])
   \<and> (\<exists>entry.
         enrich_movie (env_of None (Inl timeout_error) (Inl timeout_error)) []
             (PDict [(ustr ''title'', PStr (ustr ''X''))]) = (Inr entry, [])
         \<and> py_get entry (ustr ''poster_url'') PNone = Inr (PStr PLACEHOLDER))\<close>
proof -
  let ?e1 = \<open>env_of (Some (ustr ''k'')) (Inr (reply (ustr ''{"movies": [{"title": "X"}]}'')))
        (Inr poster_payload)\<close>
  let ?e2 = "env_of (Some (ustr ''k'')) (Inl timeout_error) (Inr poster_payload)"
  let ?e3 = "env_of (Some (ustr ''k'')) (Inl timeout_error) (Inr no_poster_payload)"
  let ?e4 = "env_of None (Inl timeout_error) (Inl timeout_error)"
  let ?e5 = "env_of (Some (ustr ''k'')) (Inl timeout_error) (Inr numeric_poster_payload)"
  let ?e6 = "env_of (Some (ustr ''k'')) (Inl timeout_error) (Inr null_poster_payload)"
  let ?req = "PDict [(ustr ''mood'', PStr (ustr ''happy''))]"
  let ?m = "[(ustr ''title'', PStr (ustr ''X''))]"
  let ?entries = "[PDict [(ustr ''title'', PStr (ustr ''X'')),
                (ustr ''year'', PStr (ustr ''2000'')),
                (ustr ''why'', PStr []),
                (ustr ''poster_url'', PStr (ustr ''https://img.example/x.jpg'')),
                (ustr ''genre'', PNone),
                (ustr ''plot'', PNone)]]"
  let ?p = "[(ustr ''movies'', PList ?entries)]"
  let ?tr = "[ResponsesCreate (build_prompt (ustr ''happy'')),
          OmdbGet [(ustr ''t'', PStr (ustr ''X'')), (ustr ''apikey'', PStr (ustr ''k''))]]"
  let ?d1 = "[(ustr ''Title'', PStr (ustr ''X'')),
            (ustr ''Year'', PStr (ustr ''2000'')),
            (ustr ''Poster'', PStr (ustr ''https://img.example/x.jpg'')),
            (ustr ''Response'', PStr (ustr ''True''))]"
  let ?d3 = "[(ustr ''Title'', PStr (ustr ''X'')),
            (ustr ''Poster'', PStr (ustr ''N/A'')),
            (ustr ''Response'', PStr (ustr ''True''))]"
  let ?d5 = "[(ustr ''Title'', PStr (ustr ''X'')),
            (ustr ''Poster'', PInt 5),
            (ustr ''Response'', PStr (ustr ''True''))]"
  let ?d6 = "[(ustr ''Title'', PStr (ustr ''X'')),
            (ustr ''Poster'', PNone),
            (ustr ''Response'', PStr (ustr ''True''))]"
  have typed: "posters_are_text ?e1"
    by (auto simp: posters_are_text_def env_of_def poster_payload_def ustr_def split: if_splits)
  have run: "recommend ?e1 ?req
      = (HttpResponse 200 (PDict [(ustr ''recommendations'', PDict ?p)]), ?tr)"
    by (simp add: request_defs poster_payload_def eval_defs)
  have movies: "map_of ?p (ustr ''movies'') = Some (PList ?entries)"
    by simp
  from run movies
    poster_url_never_falsy [where e = ?e1 and request_json = ?req and p = ?p and tr = ?tr
      and entries = ?entries]
  have c0: "list_all (poster_url_source ?e1) ?entries"
    by blast
  from typed run movies
    poster_url_never_falsy [where e = ?e1 and request_json = ?req and p = ?p and tr = ?tr
      and entries = ?entries]
  have c1: "list_all poster_url_nonempty ?entries"
    by blast
  have h2: "OMDB_API_KEY ?e2 = Some (ustr ''k'') \<and> ustr ''k'' \<noteq> []
      \<and> omdb_get ?e2 [] (omdb_params (ustr ''k'') (title_of ?m) (year_of ?m)) = Inr (PDict ?d1)
      \<and> map_of ?d1 (ustr ''Response'') = Some (PStr (ustr ''True''))
      \<and> map_of ?d1 (ustr ''Poster'') = Some (PStr (ustr ''https://img.example/x.jpg''))
      \<and> truthy (PStr (ustr ''https://img.example/x.jpg''))
      \<and> PStr (ustr ''https://img.example/x.jpg'') \<noteq> PStr (ustr ''N/A'')"
    by (simp add: env_of_def poster_payload_def ustr_def)
  from h2
    poster_url_never_falsy [where e = ?e2 and key = "ustr ''k''" and ?tr0.0 = "[]" and m = ?m
      and d = ?d1 and v = "PStr (ustr ''https://img.example/x.jpg'')"]
  have c2: "\<exists>entry tr1. enrich_movie ?e2 [] (PDict ?m) = (Inr entry, tr1)
         \<and> py_get entry (ustr ''poster_url'') PNone = Inr (PStr (ustr ''https://img.example/x.jpg''))"
    by blast
  have h5: "OMDB_API_KEY ?e5 = Some (ustr ''k'') \<and> ustr ''k'' \<noteq> []
      \<and> omdb_get ?e5 [] (omdb_params (ustr ''k'') (title_of ?m) (year_of ?m)) = Inr (PDict ?d5)
      \<and> map_of ?d5 (ustr ''Response'') = Some (PStr (ustr ''True''))
      \<and> map_of ?d5 (ustr ''Poster'') = Some (PInt 5)
      \<and> truthy (PInt 5)
      \<and> PInt 5 \<noteq> PStr (ustr ''N/A'')"
    by (simp add: env_of_def numeric_poster_payload_def ustr_def)
  from h5
    poster_url_never_falsy [where e = ?e5 and key = "ustr ''k''" and ?tr0.0 = "[]" and m = ?m
      and d = ?d5 and v = "PInt 5"]
  have c5: "\<exists>entry tr1. enrich_movie ?e5 [] (PDict ?m) = (Inr entry, tr1)
         \<and> py_get entry (ustr ''poster_url'') PNone = Inr (PInt 5)"
    by blast
  have h3: "OMDB_API_KEY ?e3 = Some (ustr ''k'') \<and> ustr ''k'' \<noteq> []
      \<and> omdb_get ?e3 [] (omdb_params (ustr ''k'') (title_of ?m) (year_of ?m)) = Inr (PDict ?d3)
      \<and> map_of ?d3 (ustr ''Response'') = Some (PStr (ustr ''True''))
      \<and> map_of ?d3 (ustr ''Poster'') = Some (PStr (ustr ''N/A''))"
    by (simp add: env_of_def no_poster_payload_def ustr_def)
  from h3
    poster_url_never_falsy [where e = ?e3 and key = "ustr ''k''" and ?tr0.0 = "[]" and m = ?m
      and d = ?d3 and w = "PStr (ustr ''N/A'')"]
  have c3: "\<exists>entry tr1. enrich_movie ?e3 [] (PDict ?m) = (Inr entry, tr1)
         \<and> py_get entry (ustr ''poster_url'') PNone = Inr (PStr PLACEHOLDER)"
    by blast
  have h6: "OMDB_API_KEY ?e6 = Some (ustr ''k'') \<and> ustr ''k'' \<noteq> []
      \<and> omdb_get ?e6 [] (omdb_params (ustr ''k'') (title_of ?m) (year_of ?m)) = Inr (PDict ?d6)
      \<and> map_of ?d6 (ustr ''Response'') = Some (PStr (ustr ''True''))
      \<and> map_of ?d6 (ustr ''Poster'') = Some PNone
      \<and> \<not> truthy PNone"
    by (simp add: env_of_def null_poster_payload_def ustr_def)
  from h6
    poster_url_never_falsy [where e = ?e6 and key = "ustr ''k''" and ?tr0.0 = "[]" and m = ?m
      and d = ?d6 and w = PNone]
  have c6: "\<exists>entry tr1. enrich_movie ?e6 [] (PDict ?m) = (Inr entry, tr1)
         \<and> py_get entry (ustr ''poster_url'') PNone = Inr (PStr PLACEHOLDER)"
    by blast
  have h4: "omdb_lookup ?e4 [] (title_of ?m) (year_of ?m) = (Inr all_absent, [])"
    by (simp add: omdb_lookup_def env_of_def)
  from h4
    poster_url_never_falsy [where e = ?e4 and ?tr0.0 = "[]" and m = ?m and ?tr2.0 = "[]"]
  have c4: "\<exists>entry. enrich_movie ?e4 [] (PDict ?m) = (Inr entry, [])
         \<and> py_get entry (ustr ''poster_url'') PNone = Inr (PStr PLACEHOLDER)"
    by blast
  from run c0 typed c1 c2 c5 c3 c6 h4 c4 show ?thesis by blast
qed

subsection \<open>The server-error result\<close>

text \<open>
  C6. The claim is that a successful call of the generation API whose parsed structure
  lacks a \<open>movies\<close> key is answered with status 200 and the body
  \<open>{"error": "No movie data returned", "raw": <extracted text>}\<close>. Here the call
  succeeds and returns the text \<open>5\<close>, which is valid JSON and parses to the number 5:
  the parsed structure has no \<open>movies\<close> key, but the test
  \<open>"movies" not in parsed\<close> of line 125 raises \<open>TypeError\<close> inside the \<open>try\<close> of
  line 115, and the view answers 500 with \<open>"OpenAI request failed"\<close> instead of the
  soft failure of line 126. The text \<open>null\<close> does the same.
\<close>

theorem no_movie_data_scalar_is_server_error:
  "responses_create (env_of None (Inr (reply (ustr ''5''))) (Inl timeout_error))
       [] (build_prompt (ustr ''happy''))
     = Inr (reply (ustr ''5''))
   \<and> extract_text_from_response (reply (ustr ''5'')) = Inr (PStr (ustr ''5''))
   \<and> parse_json_block (ustr ''5'') = Inr (PInt 5)
   \<and> recommend (env_of None (Inr (reply (ustr ''5''))) (Inl timeout_error))
       (PDict [(ustr ''mood'', PStr (ustr ''happy''))])
     = (HttpResponse 500
          (PDict [(ustr ''error'', PStr (ustr ''OpenAI request failed'')),
                  (ustr ''details'',
                   PStr (ustr ''argument of type '' @ quoted (ustr ''int'')
                         @ ustr '' is not iterable''))]),
        [ResponsesCreate (build_prompt (ustr ''happy''))])
   \<and> parse_json_block (ustr ''null'') = Inr PNone
   \<and> recommend (env_of None (Inr (reply (ustr ''null''))) (Inl timeout_error))
       (PDict [(ustr ''mood'', PStr (ustr ''happy''))])
     = (HttpResponse 500
          (PDict [(ustr ''error'', PStr (ustr ''OpenAI request failed'')),
                  (ustr ''details'',
                   PStr (ustr ''argument of type '' @ quoted (ustr ''NoneType'')
                         @ ustr '' is not iterable''))]),
        [ResponsesCreate (build_prompt (ustr ''happy''))])"
proof -
  have called: "responses_create (env_of None (Inr (reply (ustr ''5''))) (Inl timeout_error))
       [] (build_prompt (ustr ''happy''))
     = Inr (reply (ustr ''5''))"
    by (simp add: env_of_def)
  have extracted: "extract_text_from_response (reply (ustr ''5'')) = Inr (PStr (ustr ''5''))"
    by (simp add: extract_text_from_response_def reply_def ustr_def)
  have number: "parse_json_block (ustr ''5'') = Inr (PInt 5)"
    by (simp add: eval_defs)
  have answered: "recommend (env_of None (Inr (reply (ustr ''5''))) (Inl timeout_error))
       (PDict [(ustr ''mood'', PStr (ustr ''happy''))])
     = (HttpResponse 500
          (PDict [(ustr ''error'', PStr (ustr ''OpenAI request failed'')),
                  (ustr ''details'',
                   PStr (ustr ''argument of type '' @ quoted (ustr ''int'')
                         @ ustr '' is not iterable''))]),
        [ResponsesCreate (build_prompt (ustr ''happy''))])"
    by (simp add: request_defs quoted_def eval_defs)
  have null: "parse_json_block (ustr ''null'') = Inr PNone"
    by (simp add: eval_defs)
  have answered_null: "recommend (env_of None (Inr (reply (ustr ''null''))) (Inl timeout_error))
       (PDict [(ustr ''mood'', PStr (ustr ''happy''))])
     = (HttpResponse 500
          (PDict [(ustr ''error'', PStr (ustr ''OpenAI request failed'')),
                  (ustr ''details'',
                   PStr (ustr ''argument of type '' @ quoted (ustr ''NoneType'')
                         @ ustr '' is not iterable''))]),
        [ResponsesCreate (build_prompt (ustr ''happy''))])"
    by (simp add: request_defs quoted_def eval_defs)
  from called extracted number answered null answered_null show ?thesis by blast
qed

lemma generation_failure_is_500:
  assumes "request_json = PDict d" "map_of d (ustr ''mood'') = Some mood" "truthy mood"
    "responses_create e [] (build_prompt (format_value e mood)) = Inl ex"
  shows "recommend e request_json
      = (HttpResponse 500
           (PDict [(ustr ''error'', PStr (ustr ''OpenAI request failed'')),
                   (ustr ''details'', PStr (exn_str ex))]),
         [ResponsesCreate (build_prompt (format_value e mood))])"
  using assms by (auto simp: recommend_def py_or_def dict_get_def)

text \<open>
  C1. The claim is that the 500 result \<open>{"error": "OpenAI request failed", ...}\<close> is
  returned only when the call of the generation API fails. Here the call succeeds and
  returns the valid JSON \<open>{"movies": ["Inception"], "songs": []}\<close>, whose movies are
  titles and not objects: \<open>m.get\<close> of line 131 raises inside the \<open>try\<close> that
  encloses lines 116 to 144, and the view answers 500 with that error.
\<close>

theorem openai_failure_reported_after_successful_call:
  \<open>responses_create
       (env_of None (Inr (reply (ustr ''{"movies": ["Inception"], "songs": []}''))) (Inl timeout_error))
       [] (build_prompt (ustr ''happy''))
     = Inr (reply (ustr ''{"movies": ["Inception"], "songs": []}''))
   \<and> parse_json_block (ustr ''{"movies": ["Inception"], "songs": []}'')
     = Inr (PDict [(ustr ''movies'', PList [PStr (ustr ''Inception'')]), (ustr ''songs'', PList [])])
   \<and> recommend
       (env_of None (Inr (reply (ustr ''{"movies": ["Inception"], "songs": []}''))) (Inl timeout_error))
       (PDict [(ustr ''mood'', PStr (ustr ''happy''))])
     = (HttpResponse 500
          (PDict [(ustr ''error'', PStr (ustr ''OpenAI request failed'')),
                  (ustr ''details'',
                   PStr (quoted (ustr ''str'') @ ustr '' object has no attribute ''
                         @ quoted (ustr ''get'')))]),
        [ResponsesCreate (build_prompt (ustr ''happy''))])\<close>
proof -
  have called: \<open>responses_create
       (env_of None (Inr (reply (ustr ''{"movies": ["Inception"], "songs": []}''))) (Inl timeout_error))
       [] (build_prompt (ustr ''happy''))
     = Inr (reply (ustr ''{"movies": ["Inception"], "songs": []}''))\<close>
    by (simp add: env_of_def)
  have parsed: \<open>parse_json_block (ustr ''{"movies": ["Inception"], "songs": []}'')
     = Inr (PDict [(ustr ''movies'', PList [PStr (ustr ''Inception'')]), (ustr ''songs'', PList [])])\<close>
    by (simp add: eval_defs)
  have answered: \<open>recommend
       (env_of None (Inr (reply (ustr ''{"movies": ["Inception"], "songs": []}''))) (Inl timeout_error))
       (PDict [(ustr ''mood'', PStr (ustr ''happy''))])
     = (HttpResponse 500
          (PDict [(ustr ''error'', PStr (ustr ''OpenAI request failed'')),
                  (ustr ''details'',
                   PStr (quoted (ustr ''str'') @ ustr '' object has no attribute ''
                         @ quoted (ustr ''get'')))]),
        [ResponsesCreate (build_prompt (ustr ''happy''))])\<close>
    by (simp add: request_defs no_attribute_def quoted_def eval_defs)
  from called parsed answered show ?thesis by blast
qed

end
